theory Spec2Isabelle
  imports Complex_Main "HOL-Library.AList"
begin

section \<open>JavaScript values\<close>

text \<open>
  The service of \<^verbatim>\<open>src/server.js\<close> receives JSON bodies and query strings and
  talks to one MongoDB collection. The handlers never compute with numbers: they test
  \<^verbatim>\<open>typeof\<close>, truthiness and \<^verbatim>\<open>Number.isNaN\<close>, and the store compares
  prices. A number is therefore NaN, an infinity (\<^verbatim>\<open>JSON.parse("1e999")\<close>), or a
  finite value, held as a rational: every finite double is one. The one rounding step
  of the source, in \<^verbatim>\<open>Number(minPrice)\<close>, is a parameter of the environment.

  Strings are lists of 8-bit characters, read as the code points below 256.
\<close>

datatype jsnum = NaN | NegInf | Fin rat | PosInf

datatype jsval =
    VNull
  | VBool bool
  | VNum jsnum
  | VStr string
  | VArr "jsval list"
  | VObj "(string \<times> jsval) list"
  | VDate int
  | VOid string

text \<open>
  An object is the list of its properties; \<open>map_of\<close> reads a property and \<open>None\<close> is
  JavaScript's \<^verbatim>\<open>undefined\<close>. \<open>AList.update k v\<close> is the assignment
  \<^verbatim>\<open>o[k] = v\<close>: it overwrites the property in place or appends it.
\<close>

type_synonym obj = "(string \<times> jsval) list"

fun typeof :: "jsval option \<Rightarrow> string" where
  "typeof None = ''undefined''"
| "typeof (Some VNull) = ''object''"
| "typeof (Some (VBool b)) = ''boolean''"
| "typeof (Some (VNum n)) = ''number''"
| "typeof (Some (VStr s)) = ''string''"
| "typeof (Some (VArr xs)) = ''object''"
| "typeof (Some (VObj ps)) = ''object''"
| "typeof (Some (VDate t)) = ''object''"
| "typeof (Some (VOid i)) = ''object''"

text \<open>Truthiness, as \<^verbatim>\<open>!x\<close> and \<^verbatim>\<open>if (x)\<close> read it.\<close>

fun truthy :: "jsval option \<Rightarrow> bool" where
  "truthy None = False"
| "truthy (Some VNull) = False"
| "truthy (Some (VBool b)) = b"
| "truthy (Some (VNum n)) = (n \<noteq> NaN \<and> n \<noteq> Fin 0)"
| "truthy (Some (VStr s)) = (s \<noteq> [])"
| "truthy (Some (VArr xs)) = True"
| "truthy (Some (VObj ps)) = True"
| "truthy (Some (VDate t)) = True"
| "truthy (Some (VOid i)) = True"

subsection \<open>String helpers of the list handler\<close>

text \<open>\<^verbatim>\<open>s.split(",")\<close>: the empty string splits into one empty piece.\<close>

fun split_on :: "char \<Rightarrow> string \<Rightarrow> string list" where
  "split_on c [] = [[]]"
| "split_on c (x # xs) =
     (if x = c then [] # split_on c xs
      else (case split_on c xs of
              [] \<Rightarrow> [[x]]
            | w # ws \<Rightarrow> (x # w) # ws))"

text \<open>
  \<^verbatim>\<open>String.prototype.trim\<close> removes white space and line terminators at both ends;
  below code point 256 these are TAB, LF, VT, FF, CR, SPACE and NBSP.
\<close>

definition is_ws :: "char \<Rightarrow> bool" where
  "is_ws c = (c \<in> set [CHR 0x09, CHR 0x0A, CHR 0x0B, CHR 0x0C, CHR 0x0D, CHR 0x20, CHR 0xA0])"

definition trim :: "string \<Rightarrow> string" where
  "trim s = rev (dropWhile is_ws (rev (dropWhile is_ws s)))"

subsection \<open>Numeric strings\<close>

text \<open>
  \<^verbatim>\<open>Number(s)\<close> on a string reads it as a \<^verbatim>\<open>StringNumericLiteral\<close> of the language:
  white space at both ends is dropped; nothing is left for the empty and the blank
  string, whose value is 0; otherwise what is left is \<^verbatim>\<open>0x\<close>, \<^verbatim>\<open>0o\<close> or \<^verbatim>\<open>0b\<close> with
  digits of that radix, or an optional sign with \<^verbatim>\<open>Infinity\<close> or with decimal digits,
  an optional fraction and an optional exponent. A string of no such form converts to
  NaN. \<open>StringToNumber\<close> gives the exact value of the literal, \<open>None\<close> for NaN.
\<close>

definition hex_value :: "char \<Rightarrow> nat option" where
  "hex_value c =
     map_of [(CHR ''0'', 0), (CHR ''1'', 1), (CHR ''2'', 2), (CHR ''3'', 3), (CHR ''4'', 4),
             (CHR ''5'', 5), (CHR ''6'', 6), (CHR ''7'', 7), (CHR ''8'', 8), (CHR ''9'', 9),
             (CHR ''a'', 10), (CHR ''b'', 11), (CHR ''c'', 12), (CHR ''d'', 13),
             (CHR ''e'', 14), (CHR ''f'', 15),
             (CHR ''A'', 10), (CHR ''B'', 11), (CHR ''C'', 12), (CHR ''D'', 13),
             (CHR ''E'', 14), (CHR ''F'', 15)] c"

definition digit_in :: "nat \<Rightarrow> char \<Rightarrow> nat option" where
  "digit_in radix c =
     (case hex_value c of None \<Rightarrow> None | Some d \<Rightarrow> if d < radix then Some d else None)"

fun digits_value :: "nat \<Rightarrow> nat \<Rightarrow> string \<Rightarrow> nat option" where
  "digits_value radix acc [] = Some acc"
| "digits_value radix acc (c # cs) =
     (case digit_in radix c of
        None \<Rightarrow> None
      | Some d \<Rightarrow> digits_value radix (acc * radix + d) cs)"

text \<open>One digit or more.\<close>

definition natural :: "nat \<Rightarrow> string \<Rightarrow> nat option" where
  "natural radix s = (if s = [] then None else digits_value radix 0 s)"

definition signed_integer :: "string \<Rightarrow> int option" where
  "signed_integer s =
     (if take 1 s = ''+'' then map_option int (natural 10 (drop 1 s))
      else if take 1 s = ''-'' then map_option (\<lambda>n. - int n) (natural 10 (drop 1 s))
      else map_option int (natural 10 s))"

text \<open>The exponent part: nothing, or the indicator \<^verbatim>\<open>e\<close> or \<^verbatim>\<open>E\<close> and a signed integer.\<close>

definition exponent_part :: "string \<Rightarrow> int option" where
  "exponent_part s = (if s = [] then Some 0 else signed_integer (drop 1 s))"

definition scale10 :: "rat \<Rightarrow> int \<Rightarrow> rat" where
  "scale10 r ex = (if 0 \<le> ex then r * 10 ^ nat ex else r / 10 ^ nat (- ex))"

text \<open>
  Digits with an optional fraction, or a fraction alone, then the exponent part. The
  mantissa ends at the first exponent indicator and its integer part at the first dot.
\<close>

definition unsigned_decimal :: "string \<Rightarrow> rat option" where
  "unsigned_decimal s =
     (let mantissa = takeWhile (\<lambda>c. c \<noteq> CHR ''e'' \<and> c \<noteq> CHR ''E'') s;
          ipart = takeWhile (\<lambda>c. c \<noteq> CHR ''.'') mantissa;
          dotted = dropWhile (\<lambda>c. c \<noteq> CHR ''.'') mantissa;
          fpart = drop 1 dotted
      in case (if dotted = [] then natural 10 ipart
               else if ipart = [] \<and> fpart = [] then None
               else digits_value 10 0 ipart,
               digits_value 10 0 fpart,
               exponent_part (dropWhile (\<lambda>c. c \<noteq> CHR ''e'' \<and> c \<noteq> CHR ''E'') s)) of
           (Some i, Some f, Some ex) \<Rightarrow>
             Some (scale10 (of_nat i + of_nat f / 10 ^ length fpart) ex)
         | _ \<Rightarrow> None)"

datatype literal = LitInfinity | LitNegInfinity | LitValue rat

definition decimal_literal :: "string \<Rightarrow> literal option" where
  "decimal_literal s =
     (let unsigned = (if take 1 s = ''+'' \<or> take 1 s = ''-'' then drop 1 s else s)
      in if unsigned = ''Infinity''
         then Some (if take 1 s = ''-'' then LitNegInfinity else LitInfinity)
         else map_option (\<lambda>r. LitValue (if take 1 s = ''-'' then - r else r))
                (unsigned_decimal unsigned))"

definition non_decimal_literal :: "string \<Rightarrow> literal option" where
  "non_decimal_literal s =
     (if take 2 s = ''0x'' \<or> take 2 s = ''0X''
      then map_option (\<lambda>n. LitValue (of_nat n)) (natural 16 (drop 2 s))
      else if take 2 s = ''0o'' \<or> take 2 s = ''0O''
      then map_option (\<lambda>n. LitValue (of_nat n)) (natural 8 (drop 2 s))
      else if take 2 s = ''0b'' \<or> take 2 s = ''0B''
      then map_option (\<lambda>n. LitValue (of_nat n)) (natural 2 (drop 2 s))
      else None)"

definition StringToNumber :: "string \<Rightarrow> literal option" where
  "StringToNumber s =
     (if trim s = [] then Some (LitValue 0)
      else (case non_decimal_literal (trim s) of
              Some l \<Rightarrow> Some l
            | None \<Rightarrow> decimal_literal (trim s)))"

section \<open>The environment of a request\<close>

text \<open>
  What a handler reads from outside the repository: the rounding of a literal's value
  to a double (\<open>None\<close> when the magnitude overflows), \<^verbatim>\<open>ObjectId.isValid\<close>,
  \<^verbatim>\<open>new ObjectId\<close> (\<open>None\<close> when the constructor throws) and
  \<^verbatim>\<open>Date.prototype.toISOString\<close>, the clock of the process (\<^verbatim>\<open>new Date()\<close>), the
  clock of the store (\<^verbatim>\<open>$currentDate\<close>), the identifier the driver assigns to an
  inserted document, and whether the driver call of this request throws (a lost
  connection, a query the server rejects). They are parameters: the theorems hold for
  every value of them.
\<close>

record env =
  nearestDouble :: "rat \<Rightarrow> rat option"
  isValid :: "string \<Rightarrow> bool"
  ObjectId :: "string \<Rightarrow> string option"
  toISOString :: "int \<Rightarrow> string"
  now :: int
  storeNow :: int
  insertedId :: string
  storeFails :: bool

text \<open>
  \<^verbatim>\<open>Number(s)\<close>: NaN when the string is no numeric literal, the infinity it names, or
  its value as a double. An integer of magnitude up to \<open>2 ^ 53\<close> is a double and is
  its own rounding; any other value is rounded by the environment, to an infinity of its
  sign on overflow.
\<close>

definition to_double :: "env \<Rightarrow> rat \<Rightarrow> jsnum" where
  "to_double e r =
     (if r = of_int \<lfloor>r\<rfloor> \<and> \<bar>r\<bar> \<le> 2 ^ 53 then Fin r
      else (case nearestDouble e r of
              Some d \<Rightarrow> Fin d
            | None \<Rightarrow> if r < 0 then NegInf else PosInf))"

definition Number :: "env \<Rightarrow> string \<Rightarrow> jsnum" where
  "Number e s =
     (case StringToNumber s of
        None \<Rightarrow> NaN
      | Some LitInfinity \<Rightarrow> PosInf
      | Some LitNegInfinity \<Rightarrow> NegInf
      | Some (LitValue r) \<Rightarrow> to_double e r)"

section \<open>The document store\<close>

text \<open>
  The collection \<^verbatim>\<open>shop.products\<close> is the list of its documents in natural order.
  The operations below are the driver calls the handlers make, with MongoDB's semantics
  on the queries the handlers build: a filter on top-level fields (equality, \<^verbatim>\<open>$gte\<close>),
  a projection over top-level field names, a sort on one key, \<^verbatim>\<open>$set\<close> and
  \<^verbatim>\<open>$currentDate\<close>. A projection key is compared with the top-level field names only;
  dotted paths into embedded documents are not interpreted.
\<close>

type_synonym doc = obj

datatype cond = Eq jsval | Gte jsnum

type_synonym filter_doc = "(string \<times> cond) list"

type_synonym projection = "(string \<times> nat) list"

type_synonym sort_doc = "(string \<times> int) list"

datatype store_error = StoreFailure | DuplicateKey

datatype store_call =
    Find filter_doc "projection option" "sort_doc option"
  | FindOne string
  | InsertOne doc
  | FindOneAndUpdate string obj
  | DeleteOne string

text \<open>
  \<^verbatim>\<open>$gte\<close> between numbers. NaN matches NaN only; otherwise the usual order with the
  infinities at the ends.
\<close>

fun num_ge :: "jsnum \<Rightarrow> jsnum \<Rightarrow> bool" where
  "num_ge NaN NaN = True"
| "num_ge NaN _ = False"
| "num_ge _ NaN = False"
| "num_ge PosInf _ = True"
| "num_ge _ NegInf = True"
| "num_ge (Fin a) (Fin b) = (b \<le> a)"
| "num_ge (Fin a) PosInf = False"
| "num_ge NegInf _ = False"

text \<open>
  A condition on a field. A scalar condition matches an array-valued field when it
  matches one of its elements; \<^verbatim>\<open>$gte\<close> with a number matches numbers only.
\<close>

fun matches_cond :: "cond \<Rightarrow> jsval option \<Rightarrow> bool" where
  "matches_cond (Eq v) None = (v = VNull)"
| "matches_cond (Eq v) (Some (VArr xs)) = (v = VArr xs \<or> v \<in> set xs)"
| "matches_cond (Eq v) (Some x) = (v = x)"
| "matches_cond (Gte n) (Some (VNum p)) = num_ge p n"
| "matches_cond (Gte n) (Some (VArr xs)) = list_ex (\<lambda>x. case x of VNum p \<Rightarrow> num_ge p n | _ \<Rightarrow> False) xs"
| "matches_cond (Gte n) _ = False"

definition matches_filter :: "filter_doc \<Rightarrow> doc \<Rightarrow> bool" where
  "matches_filter f d = list_all (\<lambda>(k, c). matches_cond c (map_of d k)) f"

text \<open>
  Projection. A key with a non-zero value includes its field, a key with 0 excludes it.
  With some including key the result keeps the included fields, and \<^verbatim>\<open>_id\<close> unless
  it is excluded. With no including key the result keeps every field that is not
  excluded.
\<close>

definition included :: "projection \<Rightarrow> string \<Rightarrow> bool" where
  "included p k = (case map_of p k of None \<Rightarrow> False | Some b \<Rightarrow> b \<noteq> 0)"

definition excluded :: "projection \<Rightarrow> string \<Rightarrow> bool" where
  "excluded p k = (map_of p k = Some 0)"

definition apply_projection :: "projection \<Rightarrow> doc \<Rightarrow> doc" where
  "apply_projection p d =
     (if list_ex (\<lambda>(k, b). b \<noteq> 0) p
      then filter (\<lambda>(k, v). included p k \<or> (k = ''_id'' \<and> \<not> excluded p ''_id'')) d
      else filter (\<lambda>(k, v). \<not> excluded p k) d)"

text \<open>
  Sorting compares the key's values in BSON order: by type (a missing field with null,
  then numbers, strings, objects, arrays, identifiers, booleans, dates), numbers by
  value with NaN first, strings by their characters. Values the comparison does not tell
  apart keep their stored order.
\<close>

fun bson_rank :: "jsval option \<Rightarrow> nat" where
  "bson_rank None = 1"
| "bson_rank (Some VNull) = 1"
| "bson_rank (Some (VNum n)) = 2"
| "bson_rank (Some (VStr s)) = 3"
| "bson_rank (Some (VObj ps)) = 4"
| "bson_rank (Some (VArr xs)) = 5"
| "bson_rank (Some (VOid i)) = 7"
| "bson_rank (Some (VBool b)) = 8"
| "bson_rank (Some (VDate t)) = 9"

fun num_le :: "jsnum \<Rightarrow> jsnum \<Rightarrow> bool" where
  "num_le NaN _ = True"
| "num_le _ NaN = False"
| "num_le NegInf _ = True"
| "num_le _ NegInf = False"
| "num_le _ PosInf = True"
| "num_le PosInf _ = False"
| "num_le (Fin a) (Fin b) = (a \<le> b)"

fun str_le :: "string \<Rightarrow> string \<Rightarrow> bool" where
  "str_le [] ys = True"
| "str_le (x # xs) [] = False"
| "str_le (x # xs) (y # ys) =
     ((of_char x :: nat) < of_char y \<or> (x = y \<and> str_le xs ys))"

fun same_rank_le :: "jsval option \<Rightarrow> jsval option \<Rightarrow> bool" where
  "same_rank_le (Some (VNum a)) (Some (VNum b)) = num_le a b"
| "same_rank_le (Some (VStr a)) (Some (VStr b)) = str_le a b"
| "same_rank_le (Some (VOid a)) (Some (VOid b)) = str_le a b"
| "same_rank_le (Some (VBool a)) (Some (VBool b)) = (a \<le> b)"
| "same_rank_le (Some (VDate a)) (Some (VDate b)) = (a \<le> b)"
| "same_rank_le _ _ = True"

definition bson_le :: "jsval option \<Rightarrow> jsval option \<Rightarrow> bool" where
  "bson_le a b =
     (bson_rank a < bson_rank b \<or> (bson_rank a = bson_rank b \<and> same_rank_le a b))"

fun insort_by :: "('a \<Rightarrow> 'a \<Rightarrow> bool) \<Rightarrow> 'a \<Rightarrow> 'a list \<Rightarrow> 'a list" where
  "insort_by le x [] = [x]"
| "insort_by le x (y # ys) = (if le x y then x # y # ys else y # insort_by le x ys)"

definition sort_by_key :: "string \<times> int \<Rightarrow> doc list \<Rightarrow> doc list" where
  "sort_by_key kd ds =
     foldr (insort_by (\<lambda>a b. if 0 \<le> snd kd then bson_le (map_of a (fst kd)) (map_of b (fst kd))
                              else bson_le (map_of b (fst kd)) (map_of a (fst kd)))) ds []"

definition apply_sort :: "sort_doc \<Rightarrow> doc list \<Rightarrow> doc list" where
  "apply_sort s ds = foldr sort_by_key s ds"

text \<open>
  \<^verbatim>\<open>find(filter)\<close> with the cursor's \<^verbatim>\<open>project\<close> and \<^verbatim>\<open>sort\<close>, run by
  \<^verbatim>\<open>toArray()\<close>: the server filters, sorts the matching documents, then projects.
\<close>

definition find_toArray ::
  "env \<Rightarrow> doc list \<Rightarrow> filter_doc \<Rightarrow> projection option \<Rightarrow> sort_doc option \<Rightarrow> store_error + doc list" where
  "find_toArray e coll f p s =
     (if storeFails e then Inl StoreFailure
      else
        (let matching = filter (matches_filter f) coll;
             sorted = (case s of None \<Rightarrow> matching | Some so \<Rightarrow> apply_sort so matching)
         in Inr (case p of None \<Rightarrow> sorted | Some pr \<Rightarrow> map (apply_projection pr) sorted)))"

definition matches_id :: "string \<Rightarrow> doc \<Rightarrow> bool" where
  "matches_id oid d = (map_of d ''_id'' = Some (VOid oid))"

definition findOne :: "env \<Rightarrow> doc list \<Rightarrow> string \<Rightarrow> store_error + doc option" where
  "findOne e coll oid =
     (if storeFails e then Inl StoreFailure else Inr (List.find (matches_id oid) coll))"

text \<open>
  \<^verbatim>\<open>insertOne(doc)\<close> for a document without \<^verbatim>\<open>_id\<close> (the create handler never sets
  one): the driver assigns \<open>insertedId\<close>, and the unique index on \<^verbatim>\<open>_id\<close> refuses an
  identifier the collection already holds.
\<close>

definition insertOne :: "env \<Rightarrow> doc list \<Rightarrow> doc \<Rightarrow> store_error + (string \<times> doc list)" where
  "insertOne e coll d =
     (if storeFails e then Inl StoreFailure
      else if list_ex (matches_id (insertedId e)) coll then Inl DuplicateKey
      else Inr (insertedId e, coll @ [(''_id'', VOid (insertedId e)) # d]))"

fun update_first :: "('a \<Rightarrow> bool) \<Rightarrow> ('a \<Rightarrow> 'a) \<Rightarrow> 'a list \<Rightarrow> 'a list" where
  "update_first P f [] = []"
| "update_first P f (x # xs) = (if P x then f x # xs else x # update_first P f xs)"

fun delete_first :: "('a \<Rightarrow> bool) \<Rightarrow> 'a list \<Rightarrow> 'a list" where
  "delete_first P [] = []"
| "delete_first P (x # xs) = (if P x then xs else x # delete_first P xs)"

text \<open>\<^verbatim>\<open>{ $set: updates, $currentDate: { updatedAt: true } }\<close> on one document.\<close>

definition apply_update :: "obj \<Rightarrow> int \<Rightarrow> doc \<Rightarrow> doc" where
  "apply_update updates t d =
     AList.update ''updatedAt'' (VDate t) (foldl (\<lambda>d' (k, v). AList.update k v d') d updates)"

text \<open>
  \<^verbatim>\<open>findOneAndUpdate\<close> with \<^verbatim>\<open>returnDocument: "after"\<close>: the first document with
  the identifier is updated, and the result's \<^verbatim>\<open>value\<close> is the document after the
  update, or null when there is none.
\<close>

definition findOneAndUpdate ::
  "env \<Rightarrow> doc list \<Rightarrow> string \<Rightarrow> obj \<Rightarrow> store_error + (doc option \<times> doc list)" where
  "findOneAndUpdate e coll oid updates =
     (if storeFails e then Inl StoreFailure
      else (case List.find (matches_id oid) coll of
              None \<Rightarrow> Inr (None, coll)
            | Some d \<Rightarrow>
                Inr (Some (apply_update updates (storeNow e) d),
                     update_first (matches_id oid) (apply_update updates (storeNow e)) coll)))"

text \<open>\<^verbatim>\<open>deleteOne\<close>: the first document with the identifier goes; the count is 0 or 1.\<close>

definition deleteOne :: "env \<Rightarrow> doc list \<Rightarrow> string \<Rightarrow> store_error + (nat \<times> doc list)" where
  "deleteOne e coll oid =
     (if storeFails e then Inl StoreFailure
      else Inr (if list_ex (matches_id oid) coll then 1 else 0,
                delete_first (matches_id oid) coll))"


section \<open>The service\<close>

text \<open>
  The module's state is \<^verbatim>\<open>productsCollection\<close>, undefined until \<^verbatim>\<open>connectDB\<close>
  has run; \<open>shop_products\<close> is what the store holds in \<^verbatim>\<open>shop.products\<close>.
\<close>

datatype handle = Collection string string

record world =
  productsCollection :: "handle option"
  shop_products :: "doc list"

definition connectDB :: "world \<Rightarrow> world" where
  "connectDB w = w\<lparr>productsCollection := Some (Collection ''shop'' ''products'')\<rparr>"

datatype response = Response (status: nat) (payload: jsval)

text \<open>
  What a request leaves behind: the response, the collection after it, and the driver
  calls it made, in order.
\<close>

record outcome =
  reply :: response
  docs :: "doc list"
  calls :: "store_call list"

definition respond :: "world \<Rightarrow> nat \<Rightarrow> jsval \<Rightarrow> outcome" where
  "respond w code body = \<lparr>reply = Response code body, docs = shop_products w, calls = []\<rparr>"

definition server_error :: "world \<Rightarrow> store_call \<Rightarrow> outcome" where
  "server_error w c =
     \<lparr>reply = Response 500 (VObj [(''error'', VStr ''Server error'')]),
      docs = shop_products w, calls = [c]\<rparr>"

text \<open>The \<^verbatim>\<open>catch\<close> block when an exception is thrown before any driver call.\<close>

definition thrown :: "world \<Rightarrow> outcome" where
  "thrown w =
     \<lparr>reply = Response 500 (VObj [(''error'', VStr ''Server error'')]),
      docs = shop_products w, calls = []\<rparr>"

text \<open>\<^verbatim>\<open>app.get("/")\<close>, registered without \<^verbatim>\<open>ensureDB\<close>.\<close>

definition get_root :: "env \<Rightarrow> world \<Rightarrow> outcome" where
  "get_root e w =
     respond w 200
       (VObj [(''status'', VStr ''ok''), (''service'', VStr ''practice11''),
              (''time'', VStr (toISOString e (now e)))])"

text \<open>The middleware \<^verbatim>\<open>ensureDB\<close>; \<open>continue\<close> is what \<^verbatim>\<open>next()\<close> runs.\<close>

definition ensureDB :: "world \<Rightarrow> outcome \<Rightarrow> outcome" where
  "ensureDB w continue =
     (if productsCollection w = None
      then respond w 503 (VObj [(''error'', VStr ''Database not ready yet'')])
      else continue)"

subsection \<open>GET /api/products\<close>

text \<open>
  The query parameters, each absent or a string (a repeated or bracketed parameter,
  which the query parser turns into an array or an object, is outside the model).
\<close>

record query =
  q_category :: "string option"
  q_minPrice :: "string option"
  q_sort :: "string option"
  q_fields :: "string option"

definition build_filter :: "env \<Rightarrow> query \<Rightarrow> jsval + filter_doc" where
  "build_filter e q =
     (let filter0 = (case q_category q of
                       None \<Rightarrow> []
                     | Some c \<Rightarrow> if c \<noteq> [] then AList.update ''category'' (Eq (VStr c)) [] else [])
      in case q_minPrice q of
           None \<Rightarrow> Inr filter0
         | Some m \<Rightarrow>
             (let mn = Number e m
              in if mn = NaN then Inl (VObj [(''error'', VStr ''minPrice must be a number'')])
                 else Inr (AList.update ''price'' (Gte mn) filter0)))"

definition selectedFields :: "string \<Rightarrow> string list" where
  "selectedFields fs = filter (\<lambda>f. f \<noteq> []) (map trim (split_on CHR '','' fs))"

text \<open>
  \<^verbatim>\<open>projection[f] = 1\<close> on the plain object \<^verbatim>\<open>projection\<close>: the key
  \<^verbatim>\<open>__proto__\<close> is the prototype accessor, which drops a number assigned to it, so that
  name leaves the object as it was; every other name becomes a property.
\<close>

definition mark_field :: "projection \<Rightarrow> string \<Rightarrow> projection" where
  "mark_field p f = (if f = ''__proto__'' then p else AList.update f 1 p)"

definition build_projection :: "string option \<Rightarrow> projection option" where
  "build_projection fs =
     (case fs of
        None \<Rightarrow> None
      | Some s \<Rightarrow>
          if s = [] then None
          else
            (let projection = foldl mark_field [] (selectedFields s)
             in Some (if ''_id'' \<in> set (selectedFields s) then projection
                      else AList.update ''_id'' 0 projection)))"

definition build_sort :: "string option \<Rightarrow> sort_doc option" where
  "build_sort s = (if s = Some ''price'' then Some [(''price'', 1)] else None)"

definition get_products :: "env \<Rightarrow> world \<Rightarrow> query \<Rightarrow> outcome" where
  "get_products e w q =
     ensureDB w
       (case build_filter e q of
          Inl bad \<Rightarrow> respond w 400 bad
        | Inr flt \<Rightarrow>
            (let projection = build_projection (q_fields q);
                 sortObj = build_sort (q_sort q)
             in case find_toArray e (shop_products w) flt projection sortObj of
                  Inl err \<Rightarrow> server_error w (Find flt projection sortObj)
                | Inr result \<Rightarrow>
                    \<lparr>reply = Response 200 (VArr (map VObj result)),
                     docs = shop_products w,
                     calls = [Find flt projection sortObj]\<rparr>))"

subsection \<open>GET /api/products/:id\<close>

definition get_product :: "env \<Rightarrow> world \<Rightarrow> string \<Rightarrow> outcome" where
  "get_product e w ident =
     ensureDB w
       (if \<not> isValid e ident then respond w 400 (VObj [(''error'', VStr ''Invalid id'')])
        else
          (case ObjectId e ident of
             None \<Rightarrow> thrown w
           | Some oid \<Rightarrow>
               (case findOne e (shop_products w) oid of
                  Inl err \<Rightarrow> server_error w (FindOne oid)
                | Inr None \<Rightarrow>
                    \<lparr>reply = Response 404 (VObj [(''error'', VStr ''Not found'')]),
                     docs = shop_products w, calls = [FindOne oid]\<rparr>
                | Inr (Some product) \<Rightarrow>
                    \<lparr>reply = Response 200 (VObj product),
                     docs = shop_products w, calls = [FindOne oid]\<rparr>)))"

subsection \<open>POST /api/products\<close>

text \<open>
  The body is the object \<^verbatim>\<open>express.json()\<close> parsed. Past the validation
  \<^verbatim>\<open>name\<close>, \<^verbatim>\<open>category\<close> and \<^verbatim>\<open>price\<close> are defined, and \<^verbatim>\<open>stock\<close> is where
  its type is tested, so \<open>the\<close> reads values that are there. The response spreads
  the inserted document after the new identifier.
\<close>

definition post_products :: "env \<Rightarrow> world \<Rightarrow> obj \<Rightarrow> outcome" where
  "post_products e w body =
     ensureDB w
       (let name = map_of body ''name'';
            category = map_of body ''category'';
            price = map_of body ''price'';
            stock = map_of body ''stock''
        in if \<not> truthy name \<or> \<not> truthy category \<or> typeof price \<noteq> ''number''
           then respond w 400
                  (VObj [(''error'', VStr ''Validation error''),
                         (''details'', VStr ''name and category required; price must be a number'')])
           else
             (let doc = [(''name'', the name), (''category'', the category), (''price'', the price),
                         (''stock'', if typeof stock = ''number'' then the stock else VNum (Fin 0)),
                         (''createdAt'', VDate (now e))]
              in case insertOne e (shop_products w) doc of
                   Inl err \<Rightarrow> server_error w (InsertOne doc)
                 | Inr (newId, coll') \<Rightarrow>
                     \<lparr>reply = Response 201 (VObj ((''_id'', VOid newId) # doc)),
                      docs = coll', calls = [InsertOne doc]\<rparr>))"

subsection \<open>PUT /api/products/:id\<close>

definition allowed :: "string list" where
  "allowed = [''name'', ''category'', ''price'', ''stock'']"

definition collect_updates :: "obj \<Rightarrow> obj" where
  "collect_updates body =
     foldl (\<lambda>updates key. case map_of body key of
                               None \<Rightarrow> updates
                             | Some v \<Rightarrow> AList.update key v updates) [] allowed"

definition put_product :: "env \<Rightarrow> world \<Rightarrow> string \<Rightarrow> obj \<Rightarrow> outcome" where
  "put_product e w ident body =
     ensureDB w
       (if \<not> isValid e ident then respond w 400 (VObj [(''error'', VStr ''Invalid id'')])
        else
          (let updates = collect_updates body
           in if length (map fst updates) = 0
              then respond w 400 (VObj [(''error'', VStr ''No valid fields to update'')])
              else if map_of updates ''price'' \<noteq> None \<and> typeof (map_of updates ''price'') \<noteq> ''number''
              then respond w 400 (VObj [(''error'', VStr ''price must be a number'')])
              else if map_of updates ''stock'' \<noteq> None \<and> typeof (map_of updates ''stock'') \<noteq> ''number''
              then respond w 400 (VObj [(''error'', VStr ''stock must be a number'')])
              else
                (case ObjectId e ident of
                   None \<Rightarrow> thrown w
                 | Some oid \<Rightarrow>
                     (case findOneAndUpdate e (shop_products w) oid updates of
                        Inl err \<Rightarrow> server_error w (FindOneAndUpdate oid updates)
                      | Inr (None, coll') \<Rightarrow>
                          \<lparr>reply = Response 404 (VObj [(''error'', VStr ''Not found'')]),
                           docs = coll', calls = [FindOneAndUpdate oid updates]\<rparr>
                      | Inr (Some v, coll') \<Rightarrow>
                          \<lparr>reply = Response 200 (VObj v),
                           docs = coll', calls = [FindOneAndUpdate oid updates]\<rparr>))))"

subsection \<open>DELETE /api/products/:id\<close>

definition delete_product :: "env \<Rightarrow> world \<Rightarrow> string \<Rightarrow> outcome" where
  "delete_product e w ident =
     ensureDB w
       (if \<not> isValid e ident then respond w 400 (VObj [(''error'', VStr ''Invalid id'')])
        else
          (case ObjectId e ident of
             None \<Rightarrow> thrown w
           | Some oid \<Rightarrow>
               (case deleteOne e (shop_products w) oid of
                  Inl err \<Rightarrow> server_error w (DeleteOne oid)
                | Inr (deletedCount, coll') \<Rightarrow>
                    if deletedCount = 0
                    then \<lparr>reply = Response 404 (VObj [(''error'', VStr ''Not found'')]),
                          docs = coll', calls = [DeleteOne oid]\<rparr>
                    else \<lparr>reply = Response 200 (VObj [(''deleted'', VBool True), (''id'', VStr ident)]),
                          docs = coll', calls = [DeleteOne oid]\<rparr>)))"

subsection \<open>Routing\<close>

datatype request =
    GetRoot
  | GetProducts query
  | GetProduct string
  | PostProducts obj
  | PutProduct string obj
  | DeleteProduct string

fun route :: "env \<Rightarrow> world \<Rightarrow> request \<Rightarrow> outcome" where
  "route e w GetRoot = get_root e w"
| "route e w (GetProducts q) = get_products e w q"
| "route e w (GetProduct ident) = get_product e w ident"
| "route e w (PostProducts body) = post_products e w body"
| "route e w (PutProduct ident body) = put_product e w ident body"
| "route e w (DeleteProduct ident) = delete_product e w ident"

text \<open>The world after a request: the handle stays, the collection is the outcome's.\<close>

definition after :: "world \<Rightarrow> outcome \<Rightarrow> world" where
  "after w out = w\<lparr>shop_products := docs out\<rparr>"

section \<open>Vocabulary of the properties\<close>

text \<open>The three fixed error responses.\<close>

definition not_ready_reply :: response where
  "not_ready_reply = Response 503 (VObj [(''error'', VStr ''Database not ready yet'')])"

definition invalid_id_reply :: response where
  "invalid_id_reply = Response 400 (VObj [(''error'', VStr ''Invalid id'')])"

definition validation_error :: response where
  "validation_error =
     Response 400
       (VObj [(''error'', VStr ''Validation error''),
              (''details'', VStr ''name and category required; price must be a number'')])"

text \<open>A record whose price is a number at least \<open>n\<close>, in the store's order.\<close>

definition price_at_least :: "jsnum \<Rightarrow> doc \<Rightarrow> bool" where
  "price_at_least n d = (case map_of d ''price'' of Some (VNum p) \<Rightarrow> num_ge p n | _ \<Rightarrow> False)"

text \<open>
  The same for a finite bound, in the order of the rationals: the price is a finite
  number not below the bound, or the positive infinity.
\<close>

definition price_not_below :: "rat \<Rightarrow> doc \<Rightarrow> bool" where
  "price_not_below n d =
     (case map_of d ''price'' of
        Some (VNum (Fin p)) \<Rightarrow> n \<le> p
      | Some (VNum PosInf) \<Rightarrow> True
      | _ \<Rightarrow> False)"

text \<open>
  A collection in which every record has a number for its price, as every record has
  that the create handler wrote and the update handler changed.
\<close>

definition numeric_prices :: "doc list \<Rightarrow> bool" where
  "numeric_prices coll = list_all (\<lambda>d. typeof (map_of d ''price'') = ''number'') coll"

text \<open>
  The worlds the service reaches from an empty collection: the process starts without
  the handle, \<^verbatim>\<open>connectDB\<close> sets it, and each request leaves the collection of its
  outcome.
\<close>

inductive served :: "world \<Rightarrow> bool" where
  start: "served \<lparr>productsCollection = None, shop_products = []\<rparr>"
| connect: "served w \<Longrightarrow> served (connectDB w)"
| request: "served w \<Longrightarrow> served (after w (route e w r))"

text \<open>
  The records a list request selects, in the order it returns them, and what the
  \<^verbatim>\<open>fields\<close> parameter makes of them.
\<close>

definition matching_sorted :: "filter_doc \<Rightarrow> sort_doc option \<Rightarrow> doc list \<Rightarrow> doc list" where
  "matching_sorted flt so coll =
     (case so of
        None \<Rightarrow> filter (matches_filter flt) coll
      | Some s \<Rightarrow> apply_sort s (filter (matches_filter flt) coll))"

definition project_with :: "string option \<Rightarrow> doc list \<Rightarrow> doc list" where
  "project_with fs ds =
     (case build_projection fs of None \<Rightarrow> ds | Some p \<Rightarrow> map (apply_projection p) ds)"

text \<open>
  The names the projection theorem speaks of: names of top-level attributes, which have
  no dot (a dotted path reaches into an embedded document), do not start with a dollar
  sign (the store refuses those), and are not \<^verbatim>\<open>__proto__\<close>.
\<close>

definition attribute_name :: "string \<Rightarrow> bool" where
  "attribute_name f = (CHR ''.'' \<notin> set f \<and> take 1 f \<noteq> ''$'' \<and> f \<noteq> ''__proto__'')"

section \<open>Concrete requests\<close>

text \<open>
  An environment, worlds, bodies and queries on which the theorems below are evaluated.
  \<open>demo_env\<close> rounds a value to itself (the prices of the examples are doubles) and
  accepts the identifiers of 24 characters. \<open>pen_shop\<close> is the connected service
  after one create request.
\<close>

definition demo_env :: env where
  "demo_env =
     \<lparr>nearestDouble = (\<lambda>r. Some r),
      isValid = (\<lambda>s. length s = 24),
      ObjectId = (\<lambda>s. Some s),
      toISOString = (\<lambda>t. ''2024-01-01T00:00:00.000Z''),
      now = 1000, storeNow = 2000,
      insertedId = ''0123456789abcdef01234567'',
      storeFails = False\<rparr>"

definition not_ready :: world where
  "not_ready = \<lparr>productsCollection = None, shop_products = []\<rparr>"

definition empty_shop :: world where
  "empty_shop = connectDB not_ready"

definition pen :: obj where
  "pen = [(''name'', VStr ''Pen''), (''category'', VStr ''Stationery''), (''price'', VNum (Fin (3/2)))]"

definition pen_id :: string where
  "pen_id = ''0123456789abcdef01234567''"

definition pen_shop :: world where
  "pen_shop = after empty_shop (post_products demo_env empty_shop pen)"

definition no_name :: obj where
  "no_name = [(''name'', VStr []), (''category'', VStr ''Stationery''), (''price'', VNum (Fin 1))]"

definition odd_names :: obj where
  "odd_names = [(''name'', VNum (Fin 42)), (''category'', VObj [(''k'', VStr ''v'')]),
                (''price'', VNum (Fin 1))]"

definition pen_bad_stock :: obj where
  "pen_bad_stock = pen @ [(''stock'', VStr ''many'')]"

definition empty_name :: obj where
  "empty_name = [(''name'', VStr [])]"

definition price_update :: obj where
  "price_update = [(''price'', VNum (Fin (999 / 100))), (''colour'', VStr ''red'')]"

definition min_price :: "string \<Rightarrow> query" where
  "min_price m = \<lparr>q_category = None, q_minPrice = Some m, q_sort = None, q_fields = None\<rparr>"

definition only_fields :: "string \<Rightarrow> query" where
  "only_fields fs = \<lparr>q_category = None, q_minPrice = None, q_sort = None, q_fields = Some fs\<rparr>"

section \<open>Properties\<close>

subsection \<open>The readiness gate\<close>

lemma ensureDB_ready: "productsCollection w \<noteq> None \<Longrightarrow> ensureDB w c = c"
  by (auto simp: ensureDB_def)

lemma ensureDB_not_ready:
  "productsCollection w = None \<Longrightarrow>
   ensureDB w c = \<lparr>reply = not_ready_reply, docs = shop_products w, calls = []\<rparr>"
  by (simp add: ensureDB_def respond_def not_ready_reply_def)

text \<open>
  Claim C8. While the collection handle is not established, every product route (list,
  get by id, create, update, delete) answers 503 with the not-ready error, whatever the
  request carries: no driver call is made, nothing is validated, the collection is as it
  was. The health check is not gated: in every world it answers 200 with the status
  payload and makes no driver call.
\<close>

theorem readiness_gate:
  assumes "productsCollection w = None"
  shows "(\<forall>r. r \<noteq> GetRoot \<longrightarrow>
            route e w r = \<lparr>reply = not_ready_reply, docs = shop_products w, calls = []\<rparr>)
         \<and> (\<forall>w'. get_root e w' =
               \<lparr>reply = Response 200 (VObj [(''status'', VStr ''ok''), (''service'', VStr ''practice11''),
                                              (''time'', VStr (toISOString e (now e)))]),
                docs = shop_products w', calls = []\<rparr>)"
proof (intro conjI allI impI)
  fix r :: request
  assume "r \<noteq> GetRoot"
  then show "route e w r = \<lparr>reply = not_ready_reply, docs = shop_products w, calls = []\<rparr>"
    using assms
    by (cases r)
       (simp_all add: get_products_def get_product_def post_products_def put_product_def
          delete_product_def ensureDB_not_ready)
next
  fix w'
  show "get_root e w' =
          \<lparr>reply = Response 200 (VObj [(''status'', VStr ''ok''), (''service'', VStr ''practice11''),
                                         (''time'', VStr (toISOString e (now e)))]),
           docs = shop_products w', calls = []\<rparr>"
    by (simp add: get_root_def respond_def)
qed

theorem readiness_gate_witness:
  "productsCollection not_ready = None
   \<and> route demo_env not_ready (PostProducts pen) =
       \<lparr>reply = Response 503 (VObj [(''error'', VStr ''Database not ready yet'')]), docs = [], calls = []\<rparr>
   \<and> status (reply (get_root demo_env not_ready)) = 200"
proof -
  have h: "productsCollection not_ready = None" by (simp add: not_ready_def)
  from readiness_gate [OF h, of demo_env]
  have gate: "route demo_env not_ready (PostProducts pen) =
                \<lparr>reply = not_ready_reply, docs = shop_products not_ready, calls = []\<rparr>"
    and health: "get_root demo_env not_ready =
                \<lparr>reply = Response 200 (VObj [(''status'', VStr ''ok''), (''service'', VStr ''practice11''),
                                               (''time'', VStr (toISOString demo_env (now demo_env)))]),
                 docs = shop_products not_ready, calls = []\<rparr>"
    by blast+
  show ?thesis
    unfolding gate health using h by (simp add: not_ready_def not_ready_reply_def)
qed

subsection \<open>Malformed identifiers\<close>

text \<open>
  Claim C7. Once the handle is established, a get-by-id, update or delete request whose
  path identifier \<^verbatim>\<open>ObjectId.isValid\<close> refuses answers 400 with no driver call, and
  the collection is unchanged.
\<close>

theorem invalid_id_rejected:
  assumes "productsCollection w \<noteq> None" and "\<not> isValid e ident"
  shows "get_product e w ident = \<lparr>reply = invalid_id_reply, docs = shop_products w, calls = []\<rparr>
         \<and> put_product e w ident body = \<lparr>reply = invalid_id_reply, docs = shop_products w, calls = []\<rparr>
         \<and> delete_product e w ident = \<lparr>reply = invalid_id_reply, docs = shop_products w, calls = []\<rparr>"
  using assms
  by (simp add: get_product_def put_product_def delete_product_def ensureDB_ready respond_def
      invalid_id_reply_def)


theorem invalid_id_rejected_witness:
  "productsCollection empty_shop \<noteq> None \<and> \<not> isValid demo_env ''not-an-id''
   \<and> get_product demo_env empty_shop ''not-an-id'' =
       \<lparr>reply = Response 400 (VObj [(''error'', VStr ''Invalid id'')]), docs = [], calls = []\<rparr>
   \<and> put_product demo_env empty_shop ''not-an-id'' pen =
       \<lparr>reply = Response 400 (VObj [(''error'', VStr ''Invalid id'')]), docs = [], calls = []\<rparr>
   \<and> delete_product demo_env empty_shop ''not-an-id'' =
       \<lparr>reply = Response 400 (VObj [(''error'', VStr ''Invalid id'')]), docs = [], calls = []\<rparr>"
proof -
  have ready: "productsCollection empty_shop \<noteq> None"
    by (simp add: empty_shop_def connectDB_def)
  have bad: "\<not> isValid demo_env ''not-an-id''"
    by (simp add: demo_env_def)
  from invalid_id_rejected [OF ready bad, of pen] ready bad show ?thesis
    by (simp add: invalid_id_reply_def empty_shop_def connectDB_def not_ready_def)
qed

lemma typeof_number: "typeof x = ''number'' \<longleftrightarrow> (\<exists>n. x = Some (VNum n))"
  by (cases x rule: typeof.cases) simp_all

lemma post_products_accepts:
  assumes "productsCollection w \<noteq> None"
    and "truthy (map_of body ''name'')" and "truthy (map_of body ''category'')"
    and "typeof (map_of body ''price'') = ''number''"
    and "\<not> storeFails e" and "\<not> list_ex (matches_id (insertedId e)) (shop_products w)"
  shows "post_products e w body =
           (let doc = [(''name'', the (map_of body ''name'')),
                       (''category'', the (map_of body ''category'')),
                       (''price'', the (map_of body ''price'')),
                       (''stock'', if typeof (map_of body ''stock'') = ''number''
                                   then the (map_of body ''stock'') else VNum (Fin 0)),
                       (''createdAt'', VDate (now e))]
            in \<lparr>reply = Response 201 (VObj ((''_id'', VOid (insertedId e)) # doc)),
                docs = shop_products w @ [(''_id'', VOid (insertedId e)) # doc],
                calls = [InsertOne doc]\<rparr>)"
  using assms by (simp add: post_products_def ensureDB_ready insertOne_def Let_def)

lemma post_products_rejects:
  assumes "productsCollection w \<noteq> None"
    and "\<not> (truthy (map_of body ''name'') \<and> truthy (map_of body ''category'')
            \<and> typeof (map_of body ''price'') = ''number'')"
  shows "post_products e w body = \<lparr>reply = validation_error, docs = shop_products w, calls = []\<rparr>"
  using assms
  by (auto simp: post_products_def ensureDB_ready Let_def respond_def validation_error_def)

lemma truthy_Some: "truthy x \<Longrightarrow> \<exists>v. x = Some v"
  by (cases x) simp_all

subsection \<open>Creating a product\<close>

text \<open>
  Claim C3. With the handle established: when \<^verbatim>\<open>name\<close> and \<^verbatim>\<open>category\<close> are truthy
  and \<^verbatim>\<open>price\<close> is a number, and the store takes the insert (the driver does not throw
  and the identifier is new), the create request answers 201 with the full record, which
  is also what the collection gains: the new identifier, name, category and price as
  sent, \<^verbatim>\<open>stock\<close> as sent when it is a number and 0 otherwise, and the creation time.
  When one of the three conditions fails it answers the validation error, makes no
  driver call and leaves the collection as it was.
\<close>

theorem create_product_spec:
  assumes "productsCollection w \<noteq> None"
  shows "(truthy (map_of body ''name'') \<and> truthy (map_of body ''category'')
          \<and> typeof (map_of body ''price'') = ''number''
          \<and> \<not> storeFails e \<and> \<not> list_ex (matches_id (insertedId e)) (shop_products w)
          \<longrightarrow> (\<exists>rec. reply (post_products e w body) = Response 201 (VObj rec)
                 \<and> docs (post_products e w body) = shop_products w @ [rec]
                 \<and> map fst rec = [''_id'', ''name'', ''category'', ''price'', ''stock'', ''createdAt'']
                 \<and> map_of rec ''_id'' = Some (VOid (insertedId e))
                 \<and> map_of rec ''name'' = map_of body ''name''
                 \<and> map_of rec ''category'' = map_of body ''category''
                 \<and> map_of rec ''price'' = map_of body ''price''
                 \<and> map_of rec ''stock'' =
                     (case map_of body ''stock'' of
                        Some (VNum n) \<Rightarrow> Some (VNum n)
                      | _ \<Rightarrow> Some (VNum (Fin 0)))
                 \<and> map_of rec ''createdAt'' = Some (VDate (now e))))
         \<and> (\<not> (truthy (map_of body ''name'') \<and> truthy (map_of body ''category'')
                \<and> typeof (map_of body ''price'') = ''number'')
          \<longrightarrow> post_products e w body =
                \<lparr>reply = validation_error, docs = shop_products w, calls = []\<rparr>)"
proof (intro conjI impI)
  assume ok: "truthy (map_of body ''name'') \<and> truthy (map_of body ''category'')
          \<and> typeof (map_of body ''price'') = ''number''
          \<and> \<not> storeFails e \<and> \<not> list_ex (matches_id (insertedId e)) (shop_products w)"
  then obtain n c p where vals: "map_of body ''name'' = Some n" "map_of body ''category'' = Some c"
      "map_of body ''price'' = Some p"
    using truthy_Some [of "map_of body ''name''"] truthy_Some [of "map_of body ''category''"]
      typeof_number [of "map_of body ''price''"] by auto
  have stock: "(if typeof (map_of body ''stock'') = ''number'' then the (map_of body ''stock'')
                else VNum (Fin 0)) =
               the (case map_of body ''stock'' of Some (VNum n) \<Rightarrow> Some (VNum n)
                     | _ \<Rightarrow> Some (VNum (Fin 0)))"
    by (cases "map_of body ''stock''" rule: typeof.cases) simp_all
  have some: "\<exists>s. (case map_of body ''stock'' of Some (VNum n) \<Rightarrow> Some (VNum n)
                     | _ \<Rightarrow> Some (VNum (Fin 0))) = Some s"
    by (cases "map_of body ''stock''" rule: typeof.cases) simp_all
  from ok assms have eq: "post_products e w body = (let doc = [(''name'', the (map_of body ''name'')),
                       (''category'', the (map_of body ''category'')),
                       (''price'', the (map_of body ''price'')),
                       (''stock'', if typeof (map_of body ''stock'') = ''number''
                                   then the (map_of body ''stock'') else VNum (Fin 0)),
                       (''createdAt'', VDate (now e))]
            in \<lparr>reply = Response 201 (VObj ((''_id'', VOid (insertedId e)) # doc)),
                docs = shop_products w @ [(''_id'', VOid (insertedId e)) # doc],
                calls = [InsertOne doc]\<rparr>)"
    by (intro post_products_accepts) simp_all
  from some obtain s where s: "(case map_of body ''stock'' of Some (VNum n) \<Rightarrow> Some (VNum n)
                     | _ \<Rightarrow> Some (VNum (Fin 0))) = Some s" by blast
  show "\<exists>rec. reply (post_products e w body) = Response 201 (VObj rec)
                 \<and> docs (post_products e w body) = shop_products w @ [rec]
                 \<and> map fst rec = [''_id'', ''name'', ''category'', ''price'', ''stock'', ''createdAt'']
                 \<and> map_of rec ''_id'' = Some (VOid (insertedId e))
                 \<and> map_of rec ''name'' = map_of body ''name''
                 \<and> map_of rec ''category'' = map_of body ''category''
                 \<and> map_of rec ''price'' = map_of body ''price''
                 \<and> map_of rec ''stock'' =
                     (case map_of body ''stock'' of
                        Some (VNum n) \<Rightarrow> Some (VNum n)
                      | _ \<Rightarrow> Some (VNum (Fin 0)))
                 \<and> map_of rec ''createdAt'' = Some (VDate (now e))"
    unfolding eq Let_def stock s by (simp add: vals)
next
  assume "\<not> (truthy (map_of body ''name'') \<and> truthy (map_of body ''category'')
                \<and> typeof (map_of body ''price'') = ''number'')"
  with assms show "post_products e w body =
                \<lparr>reply = validation_error, docs = shop_products w, calls = []\<rparr>"
    by (rule post_products_rejects)
qed


theorem create_product_spec_witness:
  "productsCollection empty_shop \<noteq> None
   \<and> (\<exists>rec. reply (post_products demo_env empty_shop pen) = Response 201 (VObj rec)
          \<and> docs (post_products demo_env empty_shop pen) = [rec]
          \<and> map_of rec ''name'' = Some (VStr ''Pen'')
          \<and> map_of rec ''stock'' = Some (VNum (Fin 0)))
   \<and> post_products demo_env empty_shop no_name =
       \<lparr>reply = validation_error, docs = [], calls = []\<rparr>"
proof -
  have ready: "productsCollection empty_shop \<noteq> None"
    by (simp add: empty_shop_def connectDB_def)
  have ok: "truthy (map_of pen ''name'') \<and> truthy (map_of pen ''category'')
          \<and> typeof (map_of pen ''price'') = ''number''
          \<and> \<not> storeFails demo_env
          \<and> \<not> list_ex (matches_id (insertedId demo_env)) (shop_products empty_shop)"
    by (simp add: pen_def demo_env_def empty_shop_def connectDB_def not_ready_def)
  have shop: "shop_products empty_shop = []"
    by (simp add: empty_shop_def connectDB_def not_ready_def)
  from create_product_spec [OF ready, of pen demo_env] ok
  obtain rec where "reply (post_products demo_env empty_shop pen) = Response 201 (VObj rec)"
    "docs (post_products demo_env empty_shop pen) = shop_products empty_shop @ [rec]"
    "map_of rec ''name'' = map_of pen ''name''"
    "map_of rec ''stock'' = (case map_of pen ''stock'' of Some (VNum n) \<Rightarrow> Some (VNum n)
                              | _ \<Rightarrow> Some (VNum (Fin 0)))"
    by blast
  then have first: "\<exists>rec. reply (post_products demo_env empty_shop pen) = Response 201 (VObj rec)
          \<and> docs (post_products demo_env empty_shop pen) = [rec]
          \<and> map_of rec ''name'' = Some (VStr ''Pen'')
          \<and> map_of rec ''stock'' = Some (VNum (Fin 0))"
    by (simp add: shop pen_def)
  have bad: "\<not> (truthy (map_of no_name ''name'') \<and> truthy (map_of no_name ''category'')
                \<and> typeof (map_of no_name ''price'') = ''number'')"
    by (simp add: no_name_def)
  from create_product_spec [OF ready, of no_name demo_env] bad
  have second: "post_products demo_env empty_shop no_name =
       \<lparr>reply = validation_error, docs = shop_products empty_shop, calls = []\<rparr>"
    by blast
  from ready first second show ?thesis by (simp add: shop)
qed

text \<open>
  Claim C9. The create handler does not ask for strings: a body whose \<^verbatim>\<open>name\<close> is the
  number 42 and whose \<^verbatim>\<open>category\<close> is an object, with a numeric price, is answered with
  201 and both values are stored as they came.
\<close>

theorem create_keeps_non_strings:
  assumes "productsCollection w \<noteq> None" and "\<not> storeFails e"
    and "\<not> list_ex (matches_id (insertedId e)) (shop_products w)"
  shows "truthy (map_of odd_names ''name'') \<and> typeof (map_of odd_names ''name'') = ''number''
         \<and> truthy (map_of odd_names ''category'') \<and> typeof (map_of odd_names ''category'') = ''object''
         \<and> typeof (map_of odd_names ''price'') = ''number''
         \<and> status (reply (post_products e w odd_names)) = 201
         \<and> (\<exists>rec. docs (post_products e w odd_names) = shop_products w @ [rec]
                \<and> map_of rec ''name'' = Some (VNum (Fin 42))
                \<and> map_of rec ''category'' = Some (VObj [(''k'', VStr ''v'')]))"
proof -
  have vals: "truthy (map_of odd_names ''name'')" "truthy (map_of odd_names ''category'')"
    "typeof (map_of odd_names ''price'') = ''number''"
    by (simp_all add: odd_names_def)
  have types: "typeof (map_of odd_names ''name'') = ''number''"
    "typeof (map_of odd_names ''category'') = ''object''"
    by (simp_all add: odd_names_def)
  note eq = post_products_accepts [OF assms(1) vals assms(2,3)]
  have "status (reply (post_products e w odd_names)) = 201"
    unfolding eq by (simp add: Let_def)
  moreover have "\<exists>rec. docs (post_products e w odd_names) = shop_products w @ [rec]
                \<and> map_of rec ''name'' = Some (VNum (Fin 42))
                \<and> map_of rec ''category'' = Some (VObj [(''k'', VStr ''v'')])"
    unfolding eq by (simp add: Let_def odd_names_def)
  ultimately show ?thesis using vals types by simp
qed

theorem create_keeps_non_strings_witness:
  "productsCollection empty_shop \<noteq> None \<and> \<not> storeFails demo_env
   \<and> \<not> list_ex (matches_id (insertedId demo_env)) (shop_products empty_shop)
   \<and> status (reply (post_products demo_env empty_shop odd_names)) = 201
   \<and> (\<exists>rec. docs (post_products demo_env empty_shop odd_names) = [rec]
          \<and> map_of rec ''name'' = Some (VNum (Fin 42)))"
proof -
  have ready: "productsCollection empty_shop \<noteq> None"
    by (simp add: empty_shop_def connectDB_def)
  have works: "\<not> storeFails demo_env" by (simp add: demo_env_def)
  have fresh: "\<not> list_ex (matches_id (insertedId demo_env)) (shop_products empty_shop)"
    by (simp add: empty_shop_def connectDB_def not_ready_def)
  have shop: "shop_products empty_shop = []"
    by (simp add: empty_shop_def connectDB_def not_ready_def)
  from create_keeps_non_strings [OF ready works fresh] ready works fresh show ?thesis
    by (auto simp: shop)
qed


lemma map_of_collect:
  "map_of (foldl (\<lambda>updates key. case map_of body key of
                                    None \<Rightarrow> updates
                                  | Some v \<Rightarrow> AList.update key v updates) acc ks) k =
     (if k \<in> set ks \<and> map_of body k \<noteq> None then map_of body k else map_of acc k)"
  by (induction ks arbitrary: acc) (auto simp: update_conv' split: option.splits)

lemma map_of_collect_updates:
  "map_of (collect_updates body) k = (if k \<in> set allowed then map_of body k else None)"
  by (auto simp: collect_updates_def map_of_collect)

subsection \<open>A stock that is not a number\<close>

lemma put_product_bad_stock:
  assumes "productsCollection w \<noteq> None"
    and "map_of body ''stock'' = Some v" and "typeof (Some v) \<noteq> ''number''"
  shows "status (reply (put_product e w ident body)) = 400
         \<and> docs (put_product e w ident body) = shop_products w
         \<and> calls (put_product e w ident body) = []"
proof -
  have stock: "map_of (collect_updates body) ''stock'' = Some v"
    using assms(2) by (simp add: map_of_collect_updates allowed_def)
  then have nonempty: "collect_updates body \<noteq> []" by auto
  show ?thesis
    using assms(1,3) stock nonempty
    by (simp add: put_product_def ensureDB_ready Let_def respond_def)
qed

text \<open>
  Claim C2 as stated fails on create: a body with \<^verbatim>\<open>stock: "many"\<close> is answered
  with 201 and a record with stock 0 is written.
\<close>

theorem create_defaults_bad_stock:
  "map_of pen_bad_stock ''stock'' = Some (VStr ''many'')
   \<and> typeof (map_of pen_bad_stock ''stock'') = ''string''
   \<and> productsCollection empty_shop = Some (Collection ''shop'' ''products'')
   \<and> shop_products empty_shop = []
   \<and> reply (post_products demo_env empty_shop pen_bad_stock) =
       Response 201
         (VObj [(''_id'', VOid ''0123456789abcdef01234567''), (''name'', VStr ''Pen''),
                (''category'', VStr ''Stationery''), (''price'', VNum (Fin (3 / 2))),
                (''stock'', VNum (Fin 0)), (''createdAt'', VDate 1000)])
   \<and> docs (post_products demo_env empty_shop pen_bad_stock) =
       [[(''_id'', VOid ''0123456789abcdef01234567''), (''name'', VStr ''Pen''),
         (''category'', VStr ''Stationery''), (''price'', VNum (Fin (3 / 2))),
         (''stock'', VNum (Fin 0)), (''createdAt'', VDate 1000)]]"
  by (simp add: post_products_def ensureDB_def insertOne_def Let_def pen_bad_stock_def pen_def
      demo_env_def empty_shop_def connectDB_def not_ready_def matches_id_def)

text \<open>
  Claim C2, amended. With the handle established and a supplied \<^verbatim>\<open>stock\<close> that is not
  a number: an update request answers 400, makes no driver call and modifies nothing.
  A create request is not refused for it: when name, category and price pass and the
  store takes the insert it answers 201 and the record's stock is 0; when they do not
  pass it answers 400 and writes nothing.
\<close>

theorem non_numeric_stock:
  assumes "productsCollection w \<noteq> None"
    and "map_of body ''stock'' = Some v" and "typeof (Some v) \<noteq> ''number''"
  shows "status (reply (put_product e w ident body)) = 400
         \<and> docs (put_product e w ident body) = shop_products w
         \<and> calls (put_product e w ident body) = []
         \<and> (truthy (map_of body ''name'') \<and> truthy (map_of body ''category'')
            \<and> typeof (map_of body ''price'') = ''number''
            \<and> \<not> storeFails e \<and> \<not> list_ex (matches_id (insertedId e)) (shop_products w)
            \<longrightarrow> status (reply (post_products e w body)) = 201
                \<and> (\<exists>rec. docs (post_products e w body) = shop_products w @ [rec]
                       \<and> map_of rec ''stock'' = Some (VNum (Fin 0))))
         \<and> (\<not> (truthy (map_of body ''name'') \<and> truthy (map_of body ''category'')
                \<and> typeof (map_of body ''price'') = ''number'')
            \<longrightarrow> status (reply (post_products e w body)) = 400
                \<and> docs (post_products e w body) = shop_products w
                \<and> calls (post_products e w body) = [])"
proof -
  have put: "status (reply (put_product e w ident body)) = 400
         \<and> docs (put_product e w ident body) = shop_products w
         \<and> calls (put_product e w ident body) = []"
    using assms by (rule put_product_bad_stock)
  have accepted: "status (reply (post_products e w body)) = 201
                \<and> (\<exists>rec. docs (post_products e w body) = shop_products w @ [rec]
                       \<and> map_of rec ''stock'' = Some (VNum (Fin 0)))"
    if "truthy (map_of body ''name'') \<and> truthy (map_of body ''category'')
            \<and> typeof (map_of body ''price'') = ''number''
            \<and> \<not> storeFails e \<and> \<not> list_ex (matches_id (insertedId e)) (shop_products w)"
  proof -
    from that assms(1) have eq: "post_products e w body =
           (let doc = [(''name'', the (map_of body ''name'')),
                       (''category'', the (map_of body ''category'')),
                       (''price'', the (map_of body ''price'')),
                       (''stock'', if typeof (map_of body ''stock'') = ''number''
                                   then the (map_of body ''stock'') else VNum (Fin 0)),
                       (''createdAt'', VDate (now e))]
            in \<lparr>reply = Response 201 (VObj ((''_id'', VOid (insertedId e)) # doc)),
                docs = shop_products w @ [(''_id'', VOid (insertedId e)) # doc],
                calls = [InsertOne doc]\<rparr>)"
      by (intro post_products_accepts) simp_all
    show ?thesis unfolding eq using assms(2,3) by (simp add: Let_def)
  qed
  have rejected: "status (reply (post_products e w body)) = 400
                \<and> docs (post_products e w body) = shop_products w
                \<and> calls (post_products e w body) = []"
    if "\<not> (truthy (map_of body ''name'') \<and> truthy (map_of body ''category'')
                \<and> typeof (map_of body ''price'') = ''number'')"
    using post_products_rejects [OF assms(1) that, of e] by (simp add: validation_error_def)
  from put accepted rejected show ?thesis by blast
qed

theorem non_numeric_stock_witness:
  "productsCollection empty_shop \<noteq> None
   \<and> map_of pen_bad_stock ''stock'' = Some (VStr ''many'')
   \<and> typeof (Some (VStr ''many'')) \<noteq> ''number''
   \<and> status (reply (put_product demo_env empty_shop ''0123456789abcdef01234567'' pen_bad_stock)) = 400
   \<and> calls (put_product demo_env empty_shop ''0123456789abcdef01234567'' pen_bad_stock) = []
   \<and> status (reply (post_products demo_env empty_shop pen_bad_stock)) = 201
   \<and> (\<exists>rec. docs (post_products demo_env empty_shop pen_bad_stock) = [rec]
          \<and> map_of rec ''stock'' = Some (VNum (Fin 0)))"
proof -
  have ready: "productsCollection empty_shop \<noteq> None"
    by (simp add: empty_shop_def connectDB_def)
  have supplied: "map_of pen_bad_stock ''stock'' = Some (VStr ''many'')"
    by (simp add: pen_bad_stock_def pen_def)
  have bad: "typeof (Some (VStr ''many'')) \<noteq> ''number''" by simp
  have ok: "truthy (map_of pen_bad_stock ''name'') \<and> truthy (map_of pen_bad_stock ''category'')
            \<and> typeof (map_of pen_bad_stock ''price'') = ''number''
            \<and> \<not> storeFails demo_env
            \<and> \<not> list_ex (matches_id (insertedId demo_env)) (shop_products empty_shop)"
    by (simp add: pen_bad_stock_def pen_def demo_env_def empty_shop_def connectDB_def not_ready_def)
  have shop: "shop_products empty_shop = []"
    by (simp add: empty_shop_def connectDB_def not_ready_def)
  from non_numeric_stock [OF ready supplied bad, of demo_env "''0123456789abcdef01234567''"] ok
  have "status (reply (put_product demo_env empty_shop ''0123456789abcdef01234567'' pen_bad_stock)) = 400
   \<and> calls (put_product demo_env empty_shop ''0123456789abcdef01234567'' pen_bad_stock) = []
   \<and> status (reply (post_products demo_env empty_shop pen_bad_stock)) = 201
   \<and> (\<exists>rec. docs (post_products demo_env empty_shop pen_bad_stock) = shop_products empty_shop @ [rec]
          \<and> map_of rec ''stock'' = Some (VNum (Fin 0)))"
    by blast
  with ready supplied bad show ?thesis by (simp add: shop)
qed


subsection \<open>Updating a product\<close>

lemma distinct_collect:
  "distinct (map fst acc) \<Longrightarrow>
   distinct (map fst (foldl (\<lambda>updates key. case map_of body key of
                                    None \<Rightarrow> updates
                                  | Some v \<Rightarrow> AList.update key v updates) acc ks))"
  by (induction ks arbitrary: acc) (auto simp: distinct_update split: option.splits)

lemma distinct_collect_updates: "distinct (map fst (collect_updates body))"
  by (simp add: collect_updates_def distinct_collect)

lemma map_of_foldl_update:
  "distinct (map fst us) \<Longrightarrow>
   map_of (foldl (\<lambda>d' (k, v). AList.update k v d') d us) k =
     (case map_of us k of Some v \<Rightarrow> Some v | None \<Rightarrow> map_of d k)"
proof (induction us arbitrary: d)
  case Nil
  then show ?case by simp
next
  case (Cons u us)
  obtain a b where u: "u = (a, b)" by (cases u)
  from Cons.prems u have fresh: "map_of us a = None" and rest: "distinct (map fst us)"
    by (auto simp: map_of_eq_None_iff)
  show ?case
    using Cons.IH [OF rest, of "AList.update a b d"] fresh
    by (simp add: u update_conv' split: option.splits)
qed

lemma map_of_apply_update:
  "map_of (apply_update (collect_updates body) t old) k =
     (if k = ''updatedAt'' then Some (VDate t)
      else if k \<in> set allowed \<and> map_of body k \<noteq> None then map_of body k
      else map_of old k)"
  by (auto simp: apply_update_def update_conv' map_of_foldl_update distinct_collect_updates
      map_of_collect_updates split: option.splits)

lemma find_update_first:
  "List.find P xs = Some d \<Longrightarrow>
   \<exists>pre post. xs = pre @ d # post \<and> \<not> list_ex P pre \<and> P d
              \<and> update_first P f xs = pre @ f d # post"
proof (induction xs)
  case Nil
  then show ?case by simp
next
  case (Cons x xs)
  show ?case
  proof (cases "P x")
    case True
    with Cons.prems have "x = d" by simp
    with True have "x # xs = [] @ d # xs \<and> \<not> list_ex P [] \<and> P d
        \<and> update_first P f (x # xs) = [] @ f d # xs"
      by simp
    then show ?thesis by blast
  next
    case False
    with Cons.prems have "List.find P xs = Some d" by simp
    from Cons.IH [OF this] obtain pre post where
      "xs = pre @ d # post" "\<not> list_ex P pre" "P d" "update_first P f xs = pre @ f d # post"
      by blast
    with False have "x # xs = (x # pre) @ d # post \<and> \<not> list_ex P (x # pre) \<and> P d
        \<and> update_first P f (x # xs) = (x # pre) @ f d # post"
      by simp
    then show ?thesis by blast
  qed
qed

lemma put_product_200:
  assumes "reply (put_product e w ident body) = Response 200 r"
  shows "\<exists>oid old. ObjectId e ident = Some oid
           \<and> List.find (matches_id oid) (shop_products w) = Some old
           \<and> r = VObj (apply_update (collect_updates body) (storeNow e) old)
           \<and> docs (put_product e w ident body) =
               update_first (matches_id oid)
                 (apply_update (collect_updates body) (storeNow e)) (shop_products w)"
  using assms
  by (auto simp: put_product_def ensureDB_def respond_def server_error_def thrown_def
      findOneAndUpdate_def Let_def split: if_splits option.splits)

lemma collect_updates_cong:
  "(\<And>k. k \<in> set allowed \<Longrightarrow> map_of b1 k = map_of b2 k) \<Longrightarrow> collect_updates b1 = collect_updates b2"
  by (simp add: collect_updates_def allowed_def)

lemma put_product_restrict:
  "put_product e w ident (AList.restrict (set allowed) body) = put_product e w ident body"
proof -
  have "collect_updates (AList.restrict (set allowed) body) = collect_updates body"
    by (rule collect_updates_cong) (simp add: restr_conv')
  then show ?thesis by (simp add: put_product_def)
qed

text \<open>
  Claim C6. A successful update (the answer is 200) found an existing record with the
  identifier \<^verbatim>\<open>new ObjectId(id)\<close>; the collection afterwards differs in that record
  only, and the answer is the record after the update. In it \<^verbatim>\<open>updatedAt\<close> is the store's time, each
  allow-listed field the body supplies has the body's value, and every other field,
  among them \<^verbatim>\<open>_id\<close> and \<^verbatim>\<open>createdAt\<close>, is as it was. Body fields outside the
  allow-list are ignored: dropping them from the body gives the same outcome.
\<close>

theorem update_changes_only_supplied:
  assumes "reply (put_product e w ident body) = Response 200 r"
  shows "\<exists>oid pre old post new.
           ObjectId e ident = Some oid
         \<and> shop_products w = pre @ old # post
         \<and> \<not> list_ex (matches_id oid) pre
         \<and> matches_id oid old
         \<and> docs (put_product e w ident body) = pre @ new # post
         \<and> r = VObj new
         \<and> (\<forall>k. map_of new k =
                  (if k = ''updatedAt'' then Some (VDate (storeNow e))
                   else if k \<in> set allowed \<and> map_of body k \<noteq> None then map_of body k
                   else map_of old k))
         \<and> map_of new ''_id'' = map_of old ''_id''
         \<and> map_of new ''createdAt'' = map_of old ''createdAt''
         \<and> put_product e w ident (AList.restrict (set allowed) body) = put_product e w ident body"
proof -
  from put_product_200 [OF assms] obtain oid old where
    oid: "ObjectId e ident = Some oid"
    and found: "List.find (matches_id oid) (shop_products w) = Some old"
    and r: "r = VObj (apply_update (collect_updates body) (storeNow e) old)"
    and after: "docs (put_product e w ident body) =
               update_first (matches_id oid)
                 (apply_update (collect_updates body) (storeNow e)) (shop_products w)"
    by blast
  from find_update_first [OF found, of "apply_update (collect_updates body) (storeNow e)"]
  obtain pre post where split: "shop_products w = pre @ old # post"
    "\<not> list_ex (matches_id oid) pre" "matches_id oid old"
    "update_first (matches_id oid)
       (apply_update (collect_updates body) (storeNow e)) (shop_products w) =
     pre @ apply_update (collect_updates body) (storeNow e) old # post"
    by blast
  let ?new = "apply_update (collect_updates body) (storeNow e) old"
  have fields: "\<forall>k. map_of ?new k =
                  (if k = ''updatedAt'' then Some (VDate (storeNow e))
                   else if k \<in> set allowed \<and> map_of body k \<noteq> None then map_of body k
                   else map_of old k)"
    by (simp add: map_of_apply_update)
  have ident: "map_of ?new ''_id'' = map_of old ''_id''"
    and created: "map_of ?new ''createdAt'' = map_of old ''createdAt''"
    by (simp_all add: map_of_apply_update allowed_def)
  from oid split after r fields ident created put_product_restrict [of e w ident body]
  show ?thesis
    by (intro exI [of _ oid] exI [of _ pre] exI [of _ old] exI [of _ post] exI [of _ ?new]) simp
qed


lemma pen_shop_eq:
  "pen_shop =
     \<lparr>productsCollection = Some (Collection ''shop'' ''products''),
      shop_products =
        [[(''_id'', VOid ''0123456789abcdef01234567''), (''name'', VStr ''Pen''),
          (''category'', VStr ''Stationery''), (''price'', VNum (Fin (3 / 2))),
          (''stock'', VNum (Fin 0)), (''createdAt'', VDate 1000)]]\<rparr>"
  by (simp add: pen_shop_def after_def post_products_def ensureDB_def insertOne_def Let_def
      pen_def demo_env_def empty_shop_def connectDB_def not_ready_def)

theorem update_changes_only_supplied_witness:
  "reply (put_product demo_env pen_shop pen_id price_update) =
     Response 200
       (VObj [(''_id'', VOid ''0123456789abcdef01234567''), (''name'', VStr ''Pen''),
              (''category'', VStr ''Stationery''), (''price'', VNum (Fin (999 / 100))),
              (''stock'', VNum (Fin 0)), (''createdAt'', VDate 1000), (''updatedAt'', VDate 2000)])
   \<and> (\<exists>pre old post new.
          shop_products pen_shop = pre @ old # post
        \<and> docs (put_product demo_env pen_shop pen_id price_update) = pre @ new # post
        \<and> map_of new ''colour'' = map_of old ''colour''
        \<and> map_of new ''price'' = Some (VNum (Fin (999 / 100)))
        \<and> map_of new ''createdAt'' = map_of old ''createdAt'')"
proof -
  have ok: "reply (put_product demo_env pen_shop pen_id price_update) =
     Response 200
       (VObj [(''_id'', VOid ''0123456789abcdef01234567''), (''name'', VStr ''Pen''),
              (''category'', VStr ''Stationery''), (''price'', VNum (Fin (999 / 100))),
              (''stock'', VNum (Fin 0)), (''createdAt'', VDate 1000), (''updatedAt'', VDate 2000)])"
    by (simp add: pen_shop_eq put_product_def ensureDB_def findOneAndUpdate_def Let_def
        collect_updates_def allowed_def apply_update_def matches_id_def price_update_def
        pen_id_def demo_env_def)
  from update_changes_only_supplied [OF ok] obtain pre old post new where
    "shop_products pen_shop = pre @ old # post"
    "docs (put_product demo_env pen_shop pen_id price_update) = pre @ new # post"
    and fields: "\<forall>k. map_of new k =
                  (if k = ''updatedAt'' then Some (VDate (storeNow demo_env))
                   else if k \<in> set allowed \<and> map_of price_update k \<noteq> None
                        then map_of price_update k
                   else map_of old k)"
    and "map_of new ''createdAt'' = map_of old ''createdAt''"
    by blast
  moreover from fields have "map_of new ''colour'' = map_of old ''colour''"
    by (simp add: allowed_def)
  moreover from fields have "map_of new ''price'' = Some (VNum (Fin (999 / 100)))"
    by (simp add: allowed_def price_update_def)
  ultimately show ?thesis using ok by blast
qed

lemma create_rejects_empty_name:
  assumes "productsCollection w \<noteq> None"
    and "map_of body ''name'' = Some (VStr '''') \<or> map_of body ''category'' = Some (VStr '''')"
  shows "post_products e w body = \<lparr>reply = validation_error, docs = shop_products w, calls = []\<rparr>"
  using assms by (intro post_products_rejects) auto

text \<open>
  Claim C1 does not hold of the update handler. The record that a create request
  wrote with the name "Pen" is given the empty name by the update request
  \<^verbatim>\<open>{"name": ""}\<close>: the answer is 200 and the stored record has \<^verbatim>\<open>name: ""\<close>.
  The create handler refuses the same value (\<open>create_rejects_empty_name\<close>).
\<close>

theorem update_accepts_empty_name:
  "reply (post_products demo_env empty_shop pen) =
     Response 201
       (VObj [(''_id'', VOid ''0123456789abcdef01234567''), (''name'', VStr ''Pen''),
              (''category'', VStr ''Stationery''), (''price'', VNum (Fin (3 / 2))),
              (''stock'', VNum (Fin 0)), (''createdAt'', VDate 1000)])
   \<and> pen_shop = after empty_shop (post_products demo_env empty_shop pen)
   \<and> put_product demo_env pen_shop pen_id empty_name =
       \<lparr>reply = Response 200
                  (VObj [(''_id'', VOid ''0123456789abcdef01234567''), (''name'', VStr ''''),
                         (''category'', VStr ''Stationery''), (''price'', VNum (Fin (3 / 2))),
                         (''stock'', VNum (Fin 0)), (''createdAt'', VDate 1000),
                         (''updatedAt'', VDate 2000)]),
        docs = [[(''_id'', VOid ''0123456789abcdef01234567''), (''name'', VStr ''''),
                 (''category'', VStr ''Stationery''), (''price'', VNum (Fin (3 / 2))),
                 (''stock'', VNum (Fin 0)), (''createdAt'', VDate 1000),
                 (''updatedAt'', VDate 2000)]],
        calls = [FindOneAndUpdate ''0123456789abcdef01234567'' [(''name'', VStr '''')]]\<rparr>"
proof -
  have created: "reply (post_products demo_env empty_shop pen) =
     Response 201
       (VObj [(''_id'', VOid ''0123456789abcdef01234567''), (''name'', VStr ''Pen''),
              (''category'', VStr ''Stationery''), (''price'', VNum (Fin (3 / 2))),
              (''stock'', VNum (Fin 0)), (''createdAt'', VDate 1000)])"
    by (simp add: post_products_def ensureDB_def insertOne_def Let_def
      pen_def demo_env_def empty_shop_def connectDB_def not_ready_def)
  have updated: "put_product demo_env pen_shop pen_id empty_name =
       \<lparr>reply = Response 200
                  (VObj [(''_id'', VOid ''0123456789abcdef01234567''), (''name'', VStr ''''),
                         (''category'', VStr ''Stationery''), (''price'', VNum (Fin (3 / 2))),
                         (''stock'', VNum (Fin 0)), (''createdAt'', VDate 1000),
                         (''updatedAt'', VDate 2000)]),
        docs = [[(''_id'', VOid ''0123456789abcdef01234567''), (''name'', VStr ''''),
                 (''category'', VStr ''Stationery''), (''price'', VNum (Fin (3 / 2))),
                 (''stock'', VNum (Fin 0)), (''createdAt'', VDate 1000),
                 (''updatedAt'', VDate 2000)]],
        calls = [FindOneAndUpdate ''0123456789abcdef01234567'' [(''name'', VStr '''')]]\<rparr>"
    by (simp add: pen_shop_eq put_product_def ensureDB_def findOneAndUpdate_def Let_def
        collect_updates_def allowed_def apply_update_def matches_id_def empty_name_def
        pen_id_def demo_env_def)
  from created updated show ?thesis by (simp add: pen_shop_def)
qed

theorem update_accepts_empty_name_witness:
  "\<exists>rec. docs (put_product demo_env pen_shop pen_id empty_name) = [rec]
         \<and> map_of rec ''name'' = Some (VStr '''')"
  using update_accepts_empty_name by simp

subsection \<open>Prices stay numeric\<close>

text \<open>
  Every route leaves a collection of records with numeric prices in that state, so
  every world the service reaches from an empty collection has numeric prices.
\<close>

lemma list_all_update_first:
  "list_all Q xs \<Longrightarrow> (\<And>x. Q x \<Longrightarrow> Q (f x)) \<Longrightarrow> list_all Q (update_first P f xs)"
  by (induction xs) auto

lemma list_all_delete_first: "list_all Q xs \<Longrightarrow> list_all Q (delete_first P xs)"
  by (induction xs) auto

lemma post_products_keeps_numeric_prices:
  assumes "numeric_prices (shop_products w)"
  shows "numeric_prices (docs (post_products e w body))"
proof (cases "productsCollection w \<noteq> None \<and> truthy (map_of body ''name'')
              \<and> truthy (map_of body ''category'') \<and> typeof (map_of body ''price'') = ''number''
              \<and> \<not> storeFails e \<and> \<not> list_ex (matches_id (insertedId e)) (shop_products w)")
  case True
  then obtain n where "map_of body ''price'' = Some (VNum n)"
    by (auto simp: typeof_number)
  with True assms show ?thesis
    by (simp add: post_products_accepts Let_def numeric_prices_def)
next
  case False
  then have "docs (post_products e w body) = shop_products w"
    by (auto simp: post_products_def ensureDB_def respond_def server_error_def insertOne_def Let_def)
  with assms show ?thesis by simp
qed

lemma put_product_keeps_numeric_prices:
  assumes "numeric_prices (shop_products w)"
  shows "numeric_prices (docs (put_product e w ident body))"
proof (cases "docs (put_product e w ident body) = shop_products w")
  case True
  with assms show ?thesis by simp
next
  case False
  then obtain oid where checked: "map_of (collect_updates body) ''price'' \<noteq> None \<longrightarrow>
                      typeof (map_of (collect_updates body) ''price'') = ''number''"
    and after: "docs (put_product e w ident body) =
               update_first (matches_id oid)
                 (apply_update (collect_updates body) (storeNow e)) (shop_products w)"
    by (auto simp: put_product_def ensureDB_def respond_def server_error_def thrown_def
        findOneAndUpdate_def Let_def split: if_splits option.splits)
  have "typeof (map_of (apply_update (collect_updates body) (storeNow e) d) ''price'') = ''number''"
    if "typeof (map_of d ''price'') = ''number''" for d
    using that checked by (auto simp: map_of_apply_update map_of_collect_updates)
  with assms show ?thesis
    unfolding after numeric_prices_def by (intro list_all_update_first) simp_all
qed

lemma route_keeps_numeric_prices:
  assumes "numeric_prices (shop_products w)"
  shows "numeric_prices (docs (route e w r))"
proof (cases r)
  case GetRoot
  with assms show ?thesis by (simp add: get_root_def respond_def)
next
  case (GetProducts q)
  have "docs (get_products e w q) = shop_products w"
    by (auto simp: get_products_def ensureDB_def respond_def server_error_def Let_def
        split: sum.splits)
  with assms GetProducts show ?thesis by simp
next
  case (GetProduct ident)
  have "docs (get_product e w ident) = shop_products w"
    by (auto simp: get_product_def ensureDB_def respond_def server_error_def thrown_def
        split: sum.splits option.splits)
  with assms GetProduct show ?thesis by simp
next
  case (PostProducts body)
  with assms show ?thesis by (simp add: post_products_keeps_numeric_prices)
next
  case (PutProduct ident body)
  with assms show ?thesis by (simp add: put_product_keeps_numeric_prices)
next
  case (DeleteProduct ident)
  have "docs (delete_product e w ident) = shop_products w
        \<or> (\<exists>oid. docs (delete_product e w ident) =
                   delete_first (matches_id oid) (shop_products w))"
    by (auto simp: delete_product_def ensureDB_def respond_def server_error_def thrown_def
        deleteOne_def split: option.splits)
  with assms DeleteProduct show ?thesis
    by (auto simp: numeric_prices_def list_all_delete_first)
qed

lemma served_numeric_prices: "served w \<Longrightarrow> numeric_prices (shop_products w)"
proof (induction rule: served.induct)
  case start
  show ?case by (simp add: numeric_prices_def)
next
  case (connect w)
  then show ?case by (simp add: connectDB_def)
next
  case (request w e r)
  then show ?case by (simp add: after_def route_keeps_numeric_prices)
qed

subsection \<open>Listing products\<close>

lemma set_insort_by: "set (insort_by le x xs) = insert x (set xs)"
  by (induction xs) auto

lemma set_sort_by_key: "set (sort_by_key kd ds) = set ds"
proof -
  have "set (foldr (insort_by le) ds acc) = set ds \<union> set acc" for le and acc :: "doc list"
    by (induction ds) (auto simp: set_insort_by)
  then show ?thesis by (simp add: sort_by_key_def)
qed

lemma set_apply_sort: "set (apply_sort s ds) = set ds"
  by (induction s) (simp_all add: apply_sort_def set_sort_by_key)

lemma set_matching_sorted:
  "set (matching_sorted flt so coll) = {d \<in> set coll. matches_filter flt d}"
  by (cases so) (auto simp: matching_sorted_def set_apply_sort)

lemma get_products_lists:
  assumes "productsCollection w \<noteq> None" and "\<not> storeFails e" and "build_filter e q = Inr flt"
  shows "get_products e w q =
           \<lparr>reply = Response 200
                      (VArr (map VObj (project_with (q_fields q)
                                         (matching_sorted flt (build_sort (q_sort q)) (shop_products w))))),
            docs = shop_products w,
            calls = [Find flt (build_projection (q_fields q)) (build_sort (q_sort q))]\<rparr>"
  using assms
  by (simp add: get_products_def ensureDB_ready find_toArray_def Let_def project_with_def
      matching_sorted_def split: option.splits)

lemma get_products_200:
  assumes "status (reply (get_products e w q)) = 200"
  shows "\<exists>flt. build_filter e q = Inr flt \<and> productsCollection w \<noteq> None \<and> \<not> storeFails e"
  using assms
  by (auto simp: get_products_def ensureDB_def respond_def server_error_def find_toArray_def
      Let_def split: if_splits sum.splits)

lemma map_of_filter_keys:
  "map_of (filter (\<lambda>(k, v). P k) d) k = (if P k then map_of d k else None)"
  by (induction d) auto

lemma map_of_apply_projection:
  "map_of (apply_projection p d) k = None \<or> map_of (apply_projection p d) k = map_of d k"
  by (simp add: apply_projection_def map_of_filter_keys)

lemma matches_filter_price:
  assumes "matches_filter (AList.update ''price'' (Gte n) f0) d"
  shows "matches_cond (Gte n) (map_of d ''price'')"
proof -
  have "map_of (AList.update ''price'' (Gte n) f0) ''price'' = Some (Gte n)"
    by (simp add: update_conv')
  then have "(''price'', Gte n) \<in> set (AList.update ''price'' (Gte n) f0)"
    by (rule map_of_SomeD)
  with assms show ?thesis
    by (auto simp: matches_filter_def list_all_iff)
qed

lemma gte_numeric_price:
  assumes "matches_cond (Gte n) (map_of d ''price'')" and "typeof (map_of d ''price'') = ''number''"
  shows "price_at_least n d"
  using assms by (auto simp: typeof_number price_at_least_def)


lemma number_examples:
  "Number e ''abc'' = NaN" "Number e ''1'' = Fin 1" "Number e ''10'' = Fin 10"
  "Number e '''' = Fin 0" "Number e '' '' = Fin 0"
  by (simp_all add: Number_def StringToNumber_def trim_def is_ws_def non_decimal_literal_def
      decimal_literal_def unsigned_decimal_def natural_def digit_in_def hex_value_def
      exponent_part_def signed_integer_def scale10_def to_double_def Let_def)

lemma literal_examples:
  "StringToNumber ''abc'' = None" "StringToNumber ''1'' = Some (LitValue 1)"
  "StringToNumber ''10'' = Some (LitValue 10)" "StringToNumber '''' = Some (LitValue 0)"
  "StringToNumber '' '' = Some (LitValue 0)"
  by (simp_all add: StringToNumber_def trim_def is_ws_def non_decimal_literal_def
      decimal_literal_def unsigned_decimal_def natural_def digit_in_def hex_value_def
      exponent_part_def signed_integer_def scale10_def Let_def)

lemma to_double_not_NaN: "to_double e r \<noteq> NaN"
  by (simp add: to_double_def split: option.splits)

lemma Number_NaN_iff: "Number e s = NaN \<longleftrightarrow> StringToNumber s = None"
  by (simp add: Number_def to_double_not_NaN split: option.splits literal.splits)

lemma Number_blank: "trim s = [] \<Longrightarrow> Number e s = Fin 0"
  by (simp add: Number_def StringToNumber_def to_double_def)

lemma price_at_least_Fin: "price_at_least (Fin n) d = price_not_below n d"
proof (cases "map_of d ''price''")
  case None
  then show ?thesis by (simp add: price_at_least_def price_not_below_def)
next
  case (Some v)
  then show ?thesis
  proof (cases v)
    case (VNum p)
    with Some show ?thesis
      by (cases p) (simp_all add: price_at_least_def price_not_below_def)
  qed (simp_all add: price_at_least_def price_not_below_def)
qed

lemma price_at_least_matches:
  "price_at_least n d \<Longrightarrow> matches_cond (Gte n) (map_of d ''price'')"
  by (auto simp: price_at_least_def split: option.splits jsval.splits)

lemma shop_products_pen_shop:
  "shop_products pen_shop =
        [[(''_id'', VOid ''0123456789abcdef01234567''), (''name'', VStr ''Pen''),
          (''category'', VStr ''Stationery''), (''price'', VNum (Fin (3 / 2))),
          (''stock'', VNum (Fin 0)), (''createdAt'', VDate 1000)]]"
  and ready_pen_shop: "productsCollection pen_shop \<noteq> None"
  by (simp_all add: pen_shop_eq)

text \<open>
  Claim C4 as stated fails for \<^verbatim>\<open>minPrice=\<close> with the empty value: the empty string
  is not a number, but \<^verbatim>\<open>Number("")\<close> is 0 and not NaN, so the request is answered
  200 with the records whose price is at least 0.
\<close>

theorem empty_min_price_accepted:
  "q_minPrice (min_price '''') = Some '''' \<and> StringToNumber '''' = Some (LitValue 0)
   \<and> get_products demo_env pen_shop (min_price '''') =
       \<lparr>reply = Response 200
                  (VArr [VObj [(''_id'', VOid ''0123456789abcdef01234567''), (''name'', VStr ''Pen''),
                               (''category'', VStr ''Stationery''), (''price'', VNum (Fin (3 / 2))),
                               (''stock'', VNum (Fin 0)), (''createdAt'', VDate 1000)]]),
        docs = [[(''_id'', VOid ''0123456789abcdef01234567''), (''name'', VStr ''Pen''),
                 (''category'', VStr ''Stationery''), (''price'', VNum (Fin (3 / 2))),
                 (''stock'', VNum (Fin 0)), (''createdAt'', VDate 1000)]],
        calls = [Find [(''price'', Gte (Fin 0))] None None]\<rparr>"
  by (simp add: literal_examples number_examples pen_shop_eq get_products_def ensureDB_def
      build_filter_def build_projection_def build_sort_def find_toArray_def matches_filter_def
      Let_def min_price_def demo_env_def)

text \<open>
  Claim C4, amended. With the handle established and a \<^verbatim>\<open>minPrice\<close> parameter: when
  \<^verbatim>\<open>minPrice\<close> is not a numeric literal of the language (\<^verbatim>\<open>Number(minPrice)\<close> is
  NaN) the list request answers 400 and makes no driver call. The empty and the blank
  string are not refused: they convert to 0. When \<^verbatim>\<open>minPrice\<close> is a literal, the
  store answers, and the collection holds numeric prices (as in every world the service
  reaches, \<open>served_numeric_prices\<close>), the answer is 200 and lists records of the
  collection whose price is a number at least \<^verbatim>\<open>Number(minPrice)\<close>: for a finite
  bound \<open>n\<close>, a price \<open>p\<close> with \<open>n \<le> p\<close> or the infinity. Without a
  \<^verbatim>\<open>category\<close> parameter these are all such records of the collection. Each is shown
  through the projection of \<^verbatim>\<open>fields\<close> (as it is when \<^verbatim>\<open>fields\<close> is absent), and
  a listed object that shows a price shows one at least the bound.
\<close>

theorem min_price_filter:
  assumes "productsCollection w \<noteq> None" and "q_minPrice q = Some m"
  shows "(StringToNumber m = None \<longrightarrow>
            get_products e w q =
              \<lparr>reply = Response 400 (VObj [(''error'', VStr ''minPrice must be a number'')]),
               docs = shop_products w, calls = []\<rparr>)
         \<and> (trim m = [] \<longrightarrow> Number e m = Fin 0)
         \<and> (StringToNumber m \<noteq> None \<and> \<not> storeFails e \<and> numeric_prices (shop_products w) \<longrightarrow>
              Number e m \<noteq> NaN
            \<and> (\<exists>matching.
                  set matching \<subseteq> set (shop_products w)
                \<and> list_all (price_at_least (Number e m)) matching
                \<and> (\<forall>n. Number e m = Fin n \<longrightarrow> list_all (price_not_below n) matching)
                \<and> (q_category q = None \<longrightarrow>
                     set matching = {d \<in> set (shop_products w). price_at_least (Number e m) d})
                \<and> reply (get_products e w q) =
                    Response 200 (VArr (map VObj (project_with (q_fields q) matching)))
                \<and> list_all (\<lambda>r. map_of r ''price'' = None \<or> price_at_least (Number e m) r)
                     (project_with (q_fields q) matching)))"
proof (intro conjI impI)
  assume "StringToNumber m = None"
  then have "Number e m = NaN" by (simp add: Number_NaN_iff)
  with assms show "get_products e w q =
              \<lparr>reply = Response 400 (VObj [(''error'', VStr ''minPrice must be a number'')]),
               docs = shop_products w, calls = []\<rparr>"
    by (simp add: get_products_def ensureDB_ready build_filter_def Let_def respond_def)
next
  assume "trim m = []"
  then show "Number e m = Fin 0" by (rule Number_blank)
next
  assume ok: "StringToNumber m \<noteq> None \<and> \<not> storeFails e \<and> numeric_prices (shop_products w)"
  then show "Number e m \<noteq> NaN" by (simp add: Number_NaN_iff)
next
  assume ok: "StringToNumber m \<noteq> None \<and> \<not> storeFails e \<and> numeric_prices (shop_products w)"
  then have num: "Number e m \<noteq> NaN" by (simp add: Number_NaN_iff)
  let ?f0 = "case q_category q of
               None \<Rightarrow> []
             | Some c \<Rightarrow> if c \<noteq> [] then AList.update ''category'' (Eq (VStr c)) [] else []"
  let ?flt = "AList.update ''price'' (Gte (Number e m)) ?f0"
  have flt: "build_filter e q = Inr ?flt"
    using assms(2) num by (simp add: build_filter_def Let_def)
  let ?matching = "matching_sorted ?flt (build_sort (q_sort q)) (shop_products w)"
  have sub: "set ?matching \<subseteq> set (shop_products w)"
    by (auto simp: set_matching_sorted)
  have numeric: "typeof (map_of d ''price'') = ''number''" if "d \<in> set (shop_products w)" for d
    using that ok by (simp add: numeric_prices_def list_all_iff)
  have prices: "list_all (price_at_least (Number e m)) ?matching"
    unfolding list_all_iff
  proof
    fix d assume "d \<in> set ?matching"
    then have "d \<in> set (shop_products w)" and "matches_filter ?flt d"
      by (simp_all add: set_matching_sorted)
    then have "matches_cond (Gte (Number e m)) (map_of d ''price'')"
      and "typeof (map_of d ''price'') = ''number''"
      using numeric by (auto dest: matches_filter_price)
    then show "price_at_least (Number e m) d" by (rule gte_numeric_price)
  qed
  have finite: "\<forall>n. Number e m = Fin n \<longrightarrow> list_all (price_not_below n) ?matching"
  proof (intro allI impI)
    fix n assume "Number e m = Fin n"
    with prices show "list_all (price_not_below n) ?matching"
      by (simp add: list_all_iff price_at_least_Fin)
  qed
  have "set ?matching = {d \<in> set (shop_products w). price_at_least (Number e m) d}"
    if none: "q_category q = None"
  proof -
    have only: "matches_filter ?flt d = matches_cond (Gte (Number e m)) (map_of d ''price'')" for d
      by (simp add: none matches_filter_def)
    have "matches_filter ?flt d = price_at_least (Number e m) d"
      if d: "d \<in> set (shop_products w)" for d
    proof
      assume "matches_filter ?flt d"
      then have "matches_cond (Gte (Number e m)) (map_of d ''price'')" by (simp only: only)
      then show "price_at_least (Number e m) d"
        using numeric [OF d] by (rule gte_numeric_price)
    next
      assume "price_at_least (Number e m) d"
      then have "matches_cond (Gte (Number e m)) (map_of d ''price'')"
        by (rule price_at_least_matches)
      then show "matches_filter ?flt d" by (simp only: only)
    qed
    then show ?thesis
      unfolding set_matching_sorted by blast
  qed
  then have complete: "q_category q = None \<longrightarrow>
      set ?matching = {d \<in> set (shop_products w). price_at_least (Number e m) d}"
    by blast
  have shown: "list_all (\<lambda>r. map_of r ''price'' = None \<or> price_at_least (Number e m) r)
                 (project_with (q_fields q) ?matching)"
  proof (cases "build_projection (q_fields q)")
    case None
    with prices show ?thesis by (simp add: project_with_def list_all_iff)
  next
    case (Some p)
    have "map_of (apply_projection p d) ''price'' = None \<or> price_at_least (Number e m) (apply_projection p d)"
      if "price_at_least (Number e m) d" for d
      using that map_of_apply_projection [of p d "''price''"] by (auto simp: price_at_least_def)
    with prices Some show ?thesis by (simp add: project_with_def list_all_iff)
  qed
  have answer: "reply (get_products e w q) =
                  Response 200 (VArr (map VObj (project_with (q_fields q) ?matching)))"
    using get_products_lists [OF assms(1) _ flt] ok by simp
  show "\<exists>matching.
                  set matching \<subseteq> set (shop_products w)
                \<and> list_all (price_at_least (Number e m)) matching
                \<and> (\<forall>n. Number e m = Fin n \<longrightarrow> list_all (price_not_below n) matching)
                \<and> (q_category q = None \<longrightarrow>
                     set matching = {d \<in> set (shop_products w). price_at_least (Number e m) d})
                \<and> reply (get_products e w q) =
                    Response 200 (VArr (map VObj (project_with (q_fields q) matching)))
                \<and> list_all (\<lambda>r. map_of r ''price'' = None \<or> price_at_least (Number e m) r)
                     (project_with (q_fields q) matching)"
    by (rule exI [of _ ?matching], intro conjI) (fact sub prices finite complete answer shown)+
qed


theorem min_price_filter_witness:
  "productsCollection pen_shop \<noteq> None
   \<and> q_minPrice (min_price ''abc'') = Some ''abc'' \<and> StringToNumber ''abc'' = None
   \<and> get_products demo_env pen_shop (min_price ''abc'') =
       \<lparr>reply = Response 400 (VObj [(''error'', VStr ''minPrice must be a number'')]),
        docs = shop_products pen_shop, calls = []\<rparr>
   \<and> q_minPrice (min_price ''1'') = Some ''1'' \<and> StringToNumber ''1'' = Some (LitValue 1)
   \<and> \<not> storeFails demo_env \<and> numeric_prices (shop_products pen_shop)
   \<and> Number demo_env ''1'' = Fin 1
   \<and> (\<exists>matching. set matching = {d \<in> set (shop_products pen_shop). price_at_least (Fin 1) d}
          \<and> list_all (price_not_below 1) matching
          \<and> reply (get_products demo_env pen_shop (min_price ''1'')) =
              Response 200 (VArr (map VObj matching)))
   \<and> reply (get_products demo_env pen_shop (min_price ''1'')) =
       Response 200
         (VArr [VObj [(''_id'', VOid ''0123456789abcdef01234567''), (''name'', VStr ''Pen''),
                      (''category'', VStr ''Stationery''), (''price'', VNum (Fin (3 / 2))),
                      (''stock'', VNum (Fin 0)), (''createdAt'', VDate 1000)]])
   \<and> q_minPrice (min_price ''10'') = Some ''10'' \<and> Number demo_env ''10'' = Fin 10
   \<and> reply (get_products demo_env pen_shop (min_price ''10'')) = Response 200 (VArr [])"
proof -
  have par: "q_minPrice (min_price s) = Some s" "q_category (min_price s) = None" for s
    by (simp_all add: min_price_def)
  have store: "\<not> storeFails demo_env" "numeric_prices (shop_products pen_shop)"
    by (simp_all add: demo_env_def shop_products_pen_shop numeric_prices_def)
  have nofields: "project_with (q_fields (min_price s)) ds = ds" for s ds
    by (simp add: project_with_def min_price_def build_projection_def)
  from min_price_filter [OF ready_pen_shop par(1), of "''abc''" demo_env] literal_examples(1)
  have refused: "get_products demo_env pen_shop (min_price ''abc'') =
       \<lparr>reply = Response 400 (VObj [(''error'', VStr ''minPrice must be a number'')]),
        docs = shop_products pen_shop, calls = []\<rparr>"
    by blast
  have lit1: "StringToNumber ''1'' \<noteq> None \<and> \<not> storeFails demo_env
              \<and> numeric_prices (shop_products pen_shop)"
    using store by (simp add: literal_examples)
  from min_price_filter [OF ready_pen_shop par(1), of "''1''" demo_env,
      THEN conjunct2, THEN conjunct2, THEN mp, OF lit1, THEN conjunct2]
  obtain matching where
    "set matching \<subseteq> set (shop_products pen_shop)
     \<and> list_all (price_at_least (Number demo_env ''1'')) matching
     \<and> (\<forall>n. Number demo_env ''1'' = Fin n \<longrightarrow> list_all (price_not_below n) matching)
     \<and> (q_category (min_price ''1'') = None \<longrightarrow>
          set matching =
            {d \<in> set (shop_products pen_shop). price_at_least (Number demo_env ''1'') d})
     \<and> reply (get_products demo_env pen_shop (min_price ''1'')) =
          Response 200 (VArr (map VObj (project_with (q_fields (min_price ''1'')) matching)))
     \<and> list_all (\<lambda>r. map_of r ''price'' = None \<or> price_at_least (Number demo_env ''1'') r)
          (project_with (q_fields (min_price ''1'')) matching)" ..
  then have "set matching = {d \<in> set (shop_products pen_shop). price_at_least (Fin 1) d}
          \<and> list_all (price_not_below 1) matching
          \<and> reply (get_products demo_env pen_shop (min_price ''1'')) =
              Response 200 (VArr (map VObj matching))"
    by (simp add: number_examples par nofields)
  then have listed: "\<exists>matching. set matching = {d \<in> set (shop_products pen_shop). price_at_least (Fin 1) d}
          \<and> list_all (price_not_below 1) matching
          \<and> reply (get_products demo_env pen_shop (min_price ''1'')) =
              Response 200 (VArr (map VObj matching))"
    by (rule exI)
  have run: "reply (get_products demo_env pen_shop (min_price ''1'')) =
       Response 200
         (VArr [VObj [(''_id'', VOid ''0123456789abcdef01234567''), (''name'', VStr ''Pen''),
                      (''category'', VStr ''Stationery''), (''price'', VNum (Fin (3 / 2))),
                      (''stock'', VNum (Fin 0)), (''createdAt'', VDate 1000)]])"
    by (simp add: number_examples pen_shop_eq get_products_def ensureDB_def build_filter_def
        build_projection_def build_sort_def find_toArray_def matches_filter_def Let_def
        min_price_def demo_env_def)
  have lit10: "StringToNumber ''10'' \<noteq> None \<and> \<not> storeFails demo_env
              \<and> numeric_prices (shop_products pen_shop)"
    using store by (simp add: literal_examples)
  from min_price_filter [OF ready_pen_shop par(1), of "''10''" demo_env,
      THEN conjunct2, THEN conjunct2, THEN mp, OF lit10, THEN conjunct2]
  obtain none where
    "set none \<subseteq> set (shop_products pen_shop)
     \<and> list_all (price_at_least (Number demo_env ''10'')) none
     \<and> (\<forall>n. Number demo_env ''10'' = Fin n \<longrightarrow> list_all (price_not_below n) none)
     \<and> (q_category (min_price ''10'') = None \<longrightarrow>
          set none =
            {d \<in> set (shop_products pen_shop). price_at_least (Number demo_env ''10'') d})
     \<and> reply (get_products demo_env pen_shop (min_price ''10'')) =
          Response 200 (VArr (map VObj (project_with (q_fields (min_price ''10'')) none)))
     \<and> list_all (\<lambda>r. map_of r ''price'' = None \<or> price_at_least (Number demo_env ''10'') r)
          (project_with (q_fields (min_price ''10'')) none)" ..
  then have "set none = {}"
    and ten: "reply (get_products demo_env pen_shop (min_price ''10'')) =
                Response 200 (VArr (map VObj none))"
    by (simp_all add: number_examples par nofields shop_products_pen_shop price_at_least_def)
  then have excluded: "reply (get_products demo_env pen_shop (min_price ''10'')) =
                         Response 200 (VArr [])"
    by simp
  from ready_pen_shop par(1) literal_examples number_examples store refused listed run excluded
  show ?thesis by simp
qed

lemma selected_examples:
  "selectedFields ''name,updatedAt'' = [''name'', ''updatedAt'']"
  "selectedFields ''name,price'' = [''name'', ''price'']"
  "selectedFields '' , ,'' = []"
  by (simp_all add: selectedFields_def trim_def is_ws_def)

lemma map_of_mark_fields:
  "map_of (foldl mark_field acc sel) k =
     (if k \<in> set sel \<and> k \<noteq> ''__proto__'' then Some 1 else map_of acc k)"
  by (induction sel arbitrary: acc) (auto simp: mark_field_def update_conv')

lemma selectedFields_empty [simp]: "selectedFields [] = []"
  by (simp add: selectedFields_def trim_def)

lemma build_projection_named:
  assumes "selectedFields fs \<noteq> []" and "list_all attribute_name (selectedFields fs)"
  shows "\<exists>p. build_projection (Some fs) = Some p
           \<and> (\<forall>d. apply_projection p d = AList.restrict (set (selectedFields fs)) d)"
proof -
  let ?sel = "selectedFields fs"
  let ?p0 = "foldl mark_field [] ?sel"
  let ?p = "if ''_id'' \<in> set ?sel then ?p0 else AList.update ''_id'' 0 ?p0"
  from assms(1) have "fs \<noteq> []" by auto
  then have built: "build_projection (Some fs) = Some ?p"
    by (simp add: build_projection_def Let_def)
  from assms(2) have plain: "''__proto__'' \<notin> set ?sel"
    by (auto simp: list_all_iff attribute_name_def)
  have look: "map_of ?p k = (if k \<in> set ?sel then Some 1
                              else if k = ''_id'' then Some 0 else None)" for k
    using plain by (auto simp: map_of_mark_fields update_conv')
  have incl: "included ?p k = (k \<in> set ?sel)" for k
    unfolding included_def look by simp
  have excl: "excluded ?p ''_id'' = (''_id'' \<notin> set ?sel)"
    unfolding excluded_def look by simp
  from assms(1) obtain f where f: "f \<in> set ?sel" by (cases ?sel) auto
  then have "map_of ?p f = Some 1" unfolding look by simp
  then have "(f, 1) \<in> set ?p" by (rule map_of_SomeD)
  then have some: "list_ex (\<lambda>(k, b). b \<noteq> 0) ?p"
    unfolding list_ex_iff by force
  have "apply_projection ?p d = AList.restrict (set ?sel) d" for d
  proof -
    have "(\<lambda>(k, v). included ?p k \<or> (k = ''_id'' \<and> \<not> excluded ?p ''_id'')) =
          (\<lambda>(k, v :: jsval). k \<in> set ?sel)"
      unfolding incl excl by auto
    with some show ?thesis
      unfolding apply_projection_def AList.restrict_eq by simp
  qed
  with built show ?thesis by blast
qed

lemma build_projection_blank:
  assumes "fs \<noteq> []" and "selectedFields fs = []"
  shows "build_projection (Some fs) = Some [(''_id'', 0)]"
    and "apply_projection [(''_id'', 0)] d = AList.delete ''_id'' d"
proof -
  show "build_projection (Some fs) = Some [(''_id'', 0)]"
    using assms by (simp add: build_projection_def Let_def)
  have "(\<lambda>(k, v). \<not> excluded [(''_id'', 0)] k) = (\<lambda>(k, v :: jsval). ''_id'' \<noteq> k)"
    by (auto simp: excluded_def)
  then show "apply_projection [(''_id'', 0)] d = AList.delete ''_id'' d"
    unfolding apply_projection_def AList.delete_eq by simp
qed

text \<open>
  Claim C5 as stated fails: \<^verbatim>\<open>fields=name,updatedAt\<close> on a record that was never
  updated returns an object with \<^verbatim>\<open>name\<close> only, not the two requested attributes.
\<close>

theorem fields_not_exact:
  "q_fields (only_fields ''name,updatedAt'') = Some ''name,updatedAt''
   \<and> selectedFields ''name,updatedAt'' = [''name'', ''updatedAt'']
   \<and> reply (get_products demo_env pen_shop (only_fields ''name,updatedAt'')) =
       Response 200 (VArr [VObj [(''name'', VStr ''Pen'')]])"
  by (simp add: selected_examples only_fields_def pen_shop_eq get_products_def ensureDB_def
      build_filter_def build_projection_def mark_field_def build_sort_def find_toArray_def matches_filter_def
      apply_projection_def included_def excluded_def Let_def demo_env_def)

text \<open>
  Claim C5, amended. A successful list request whose \<^verbatim>\<open>fields\<close> names at least one
  attribute, all of them \<open>attribute_name\<close>s, returns,
  for each listed record, the record restricted to the requested names: its attributes
  are the requested ones that the record has, with the record's values, and nothing
  else. The identifier is absent whenever \<^verbatim>\<open>_id\<close> is not requested.
\<close>

theorem fields_projection:
  assumes "status (reply (get_products e w q)) = 200"
    and "q_fields q = Some fs" and "selectedFields fs \<noteq> []"
    and "list_all attribute_name (selectedFields fs)"
  shows "\<exists>ds. set ds \<subseteq> set (shop_products w)
           \<and> payload (reply (get_products e w q)) =
               VArr (map (\<lambda>d. VObj (AList.restrict (set (selectedFields fs)) d)) ds)
           \<and> list_all (\<lambda>d. fst ` set (AList.restrict (set (selectedFields fs)) d) =
                              fst ` set d \<inter> set (selectedFields fs)
                          \<and> (\<forall>k \<in> set (selectedFields fs).
                                map_of (AList.restrict (set (selectedFields fs)) d) k = map_of d k)) ds
           \<and> (''_id'' \<notin> set (selectedFields fs) \<longrightarrow>
                list_all (\<lambda>d. map_of (AList.restrict (set (selectedFields fs)) d) ''_id'' = None) ds)"
proof -
  from get_products_200 [OF assms(1)] obtain flt where
    flt: "build_filter e q = Inr flt" and ready: "productsCollection w \<noteq> None"
    and works: "\<not> storeFails e"
    by blast
  from build_projection_named [OF assms(3,4)] obtain p where
    p: "build_projection (Some fs) = Some p"
    "\<And>d. apply_projection p d = AList.restrict (set (selectedFields fs)) d"
    by blast
  let ?ds = "matching_sorted flt (build_sort (q_sort q)) (shop_products w)"
  have "set ?ds \<subseteq> set (shop_products w)"
    by (auto simp: set_matching_sorted)
  moreover have "payload (reply (get_products e w q)) =
               VArr (map (\<lambda>d. VObj (AList.restrict (set (selectedFields fs)) d)) ?ds)"
    unfolding get_products_lists [OF ready works flt]
    by (simp add: project_with_def assms(2) p comp_def)
  moreover have "list_all (\<lambda>d. fst ` set (AList.restrict (set (selectedFields fs)) d) =
                              fst ` set d \<inter> set (selectedFields fs)
                          \<and> (\<forall>k \<in> set (selectedFields fs).
                                map_of (AList.restrict (set (selectedFields fs)) d) k = map_of d k)) ?ds"
    by (simp add: list_all_iff)
  moreover have "''_id'' \<notin> set (selectedFields fs) \<longrightarrow>
                list_all (\<lambda>d. map_of (AList.restrict (set (selectedFields fs)) d) ''_id'' = None) ?ds"
    by (simp add: list_all_iff)
  ultimately show ?thesis by blast
qed

theorem fields_projection_witness:
  "status (reply (get_products demo_env pen_shop (only_fields ''name,price''))) = 200
   \<and> q_fields (only_fields ''name,price'') = Some ''name,price''
   \<and> selectedFields ''name,price'' = [''name'', ''price'']
   \<and> list_all attribute_name (selectedFields ''name,price'')
   \<and> (\<exists>ds. set ds \<subseteq> set (shop_products pen_shop)
          \<and> payload (reply (get_products demo_env pen_shop (only_fields ''name,price''))) =
              VArr (map (\<lambda>d. VObj (AList.restrict {''name'', ''price''} d)) ds))
   \<and> payload (reply (get_products demo_env pen_shop (only_fields ''name,price''))) =
       VArr [VObj [(''name'', VStr ''Pen''), (''price'', VNum (Fin (3 / 2)))]]"
proof -
  have run: "reply (get_products demo_env pen_shop (only_fields ''name,price'')) =
       Response 200 (VArr [VObj [(''name'', VStr ''Pen''), (''price'', VNum (Fin (3 / 2)))]])"
    by (simp add: selected_examples only_fields_def pen_shop_eq get_products_def ensureDB_def
      build_filter_def build_projection_def mark_field_def build_sort_def find_toArray_def matches_filter_def
      apply_projection_def included_def excluded_def Let_def demo_env_def)
  then have ok: "status (reply (get_products demo_env pen_shop (only_fields ''name,price''))) = 200"
    by simp
  have fs: "q_fields (only_fields ''name,price'') = Some ''name,price''"
    by (simp add: only_fields_def)
  have named: "selectedFields ''name,price'' \<noteq> []"
    and plain: "list_all attribute_name (selectedFields ''name,price'')"
    by (simp_all add: selected_examples attribute_name_def)
  from fields_projection [OF ok fs named plain]
  have "\<exists>ds. set ds \<subseteq> set (shop_products pen_shop)
          \<and> payload (reply (get_products demo_env pen_shop (only_fields ''name,price''))) =
              VArr (map (\<lambda>d. VObj (AList.restrict {''name'', ''price''} d)) ds)"
    by (simp add: selected_examples) blast
  with run ok fs plain show ?thesis by (simp add: selected_examples)
qed

text \<open>
  Claim C10 as stated fails for \<^verbatim>\<open>fields=\<close> with the empty value: the parameter is
  present and holds no name, but the handler's \<^verbatim>\<open>if (fields)\<close> skips the projection
  and the identifier is returned.
\<close>

theorem empty_fields_keep_id:
  "q_fields (only_fields '''') = Some '''' \<and> selectedFields '''' = []
   \<and> reply (get_products demo_env pen_shop (only_fields '''')) =
       Response 200
         (VArr [VObj [(''_id'', VOid ''0123456789abcdef01234567''), (''name'', VStr ''Pen''),
                      (''category'', VStr ''Stationery''), (''price'', VNum (Fin (3 / 2))),
                      (''stock'', VNum (Fin 0)), (''createdAt'', VDate 1000)]])"
  by (simp add: only_fields_def pen_shop_eq get_products_def ensureDB_def
      build_filter_def build_projection_def mark_field_def build_sort_def find_toArray_def matches_filter_def
      Let_def demo_env_def)

text \<open>
  Claim C10, amended. A successful list request whose \<^verbatim>\<open>fields\<close> is a non-empty
  string holding no name (only commas and white space) returns each listed record with
  every attribute but \<^verbatim>\<open>_id\<close>. When \<^verbatim>\<open>fields\<close> is the empty string no projection
  is made and the records are returned whole.
\<close>

theorem blank_fields:
  assumes "status (reply (get_products e w q)) = 200"
    and "q_fields q = Some fs" and "selectedFields fs = []"
  shows "\<exists>ds. set ds \<subseteq> set (shop_products w)
           \<and> (fs \<noteq> [] \<longrightarrow>
                payload (reply (get_products e w q)) = VArr (map (\<lambda>d. VObj (AList.delete ''_id'' d)) ds))
           \<and> (fs = [] \<longrightarrow> payload (reply (get_products e w q)) = VArr (map VObj ds))"
proof -
  from get_products_200 [OF assms(1)] obtain flt where
    flt: "build_filter e q = Inr flt" and ready: "productsCollection w \<noteq> None"
    and works: "\<not> storeFails e"
    by blast
  let ?ds = "matching_sorted flt (build_sort (q_sort q)) (shop_products w)"
  have "set ?ds \<subseteq> set (shop_products w)"
    by (auto simp: set_matching_sorted)
  moreover have "payload (reply (get_products e w q)) =
                   VArr (map (\<lambda>d. VObj (AList.delete ''_id'' d)) ?ds)" if "fs \<noteq> []"
    unfolding get_products_lists [OF ready works flt]
    by (simp add: project_with_def assms(2) build_projection_blank [OF that assms(3)] comp_def)
  moreover have "payload (reply (get_products e w q)) = VArr (map VObj ?ds)" if "fs = []"
    unfolding get_products_lists [OF ready works flt]
    by (simp add: project_with_def assms(2) that build_projection_def)
  ultimately show ?thesis by blast
qed

theorem blank_fields_witness:
  "status (reply (get_products demo_env pen_shop (only_fields '' , ,''))) = 200
   \<and> q_fields (only_fields '' , ,'') = Some '' , ,'' \<and> selectedFields '' , ,'' = []
   \<and> (\<exists>ds. set ds \<subseteq> set (shop_products pen_shop)
          \<and> payload (reply (get_products demo_env pen_shop (only_fields '' , ,''))) =
              VArr (map (\<lambda>d. VObj (AList.delete ''_id'' d)) ds))
   \<and> payload (reply (get_products demo_env pen_shop (only_fields '' , ,''))) =
       VArr [VObj [(''name'', VStr ''Pen''), (''category'', VStr ''Stationery''),
                   (''price'', VNum (Fin (3 / 2))), (''stock'', VNum (Fin 0)),
                   (''createdAt'', VDate 1000)]]"
proof -
  have run: "reply (get_products demo_env pen_shop (only_fields '' , ,'')) =
       Response 200
         (VArr [VObj [(''name'', VStr ''Pen''), (''category'', VStr ''Stationery''),
                      (''price'', VNum (Fin (3 / 2))), (''stock'', VNum (Fin 0)),
                      (''createdAt'', VDate 1000)]])"
    by (simp add: selected_examples only_fields_def pen_shop_eq get_products_def ensureDB_def
      build_filter_def build_projection_def mark_field_def build_sort_def find_toArray_def matches_filter_def
      apply_projection_def included_def excluded_def Let_def demo_env_def)
  then have ok: "status (reply (get_products demo_env pen_shop (only_fields '' , ,''))) = 200"
    by simp
  have fs: "q_fields (only_fields '' , ,'') = Some '' , ,''"
    by (simp add: only_fields_def)
  from blank_fields [OF ok fs selected_examples(3)]
  have "\<exists>ds. set ds \<subseteq> set (shop_products pen_shop)
          \<and> payload (reply (get_products demo_env pen_shop (only_fields '' , ,''))) =
              VArr (map (\<lambda>d. VObj (AList.delete ''_id'' d)) ds)"
    by auto
  with run ok fs show ?thesis by (simp add: selected_examples)
qed

end
